theory Spec2Isabelle
  imports Main
begin


section \<open>JavaScript values\<close>

text \<open>
  The handlers of \<^verbatim>\<open>backend/index.js\<close> work on plain JavaScript objects: request bodies,
  event payloads, entries of the in-memory maps. They are modelled as JSON-like values.
  A number is an integer here (the handlers only count dispenses); \<open>JNaN\<close> stands for the
  one non-integer number the operators below can produce. An object is the list of its
  own properties in insertion order, which is the order \<^verbatim>\<open>JSON.stringify\<close> prints them in.
\<close>

datatype jsval =
    JUndefined
  | JNull
  | JNaN
  | JBool bool
  | JNum int
  | JStr string
  | JArr "jsval list"
  | JObj "(string \<times> jsval) list"

type_synonym jsobj = "(string \<times> jsval) list"

datatype js_error = ReferenceError string | TypeError string | Thrown string

subsection \<open>Property access\<close>

definition get_prop :: "jsobj \<Rightarrow> string \<Rightarrow> jsval" where
  "get_prop kvs k = (case map_of kvs k of None \<Rightarrow> JUndefined | Some v \<Rightarrow> v)"

text \<open>\<^verbatim>\<open>o?.k\<close>: undefined on undefined and null, the property on an object, and undefined on
  the other primitives and on arrays, which have none of the property names read here.\<close>

definition opt_prop :: "jsval \<Rightarrow> string \<Rightarrow> jsval" where
  "opt_prop v k = (case v of JObj kvs \<Rightarrow> get_prop kvs k | _ \<Rightarrow> JUndefined)"

text \<open>\<^verbatim>\<open>o.k\<close>: as \<^verbatim>\<open>o?.k\<close>, but a TypeError on undefined and null.\<close>

definition must_prop :: "jsval \<Rightarrow> string \<Rightarrow> js_error + jsval" where
  "must_prop v k =
     (case v of
        JUndefined \<Rightarrow> Inl (TypeError k)
      | JNull \<Rightarrow> Inl (TypeError k)
      | _ \<Rightarrow> Inr (opt_prop v k))"

text \<open>\<^verbatim>\<open>o.k = v\<close> and the members of an object literal or spread: an existing key keeps its
  place, a new key goes to the end.\<close>

fun obj_set :: "jsobj \<Rightarrow> string \<Rightarrow> jsval \<Rightarrow> jsobj" where
  "obj_set [] k v = [(k, v)]"
| "obj_set ((k', v') # kvs) k v =
     (if k' = k then (k, v) # kvs else (k', v') # obj_set kvs k v)"

definition obj_remove :: "string list \<Rightarrow> jsobj \<Rightarrow> jsobj" where
  "obj_remove ks kvs = filter (\<lambda>(k, v). k \<notin> set ks) kvs"

definition opt_str :: "string option \<Rightarrow> jsval" where
  "opt_str x = (case x of None \<Rightarrow> JUndefined | Some s \<Rightarrow> JStr s)"

subsection \<open>Operators\<close>

fun truthy :: "jsval \<Rightarrow> bool" where
  "truthy JUndefined = False"
| "truthy JNull = False"
| "truthy JNaN = False"
| "truthy (JBool b) = b"
| "truthy (JNum n) = (n \<noteq> 0)"
| "truthy (JStr s) = (s \<noteq> [])"
| "truthy (JArr xs) = True"
| "truthy (JObj kvs) = True"

text \<open>\<^verbatim>\<open>a || b\<close> and \<^verbatim>\<open>a ?? b\<close>\<close>

definition js_or :: "jsval \<Rightarrow> jsval \<Rightarrow> jsval" where
  "js_or a b = (if truthy a then a else b)"

definition nullish :: "jsval \<Rightarrow> jsval \<Rightarrow> jsval" where
  "nullish a b = (if a = JUndefined \<or> a = JNull then b else a)"

subsection \<open>Numbers and strings\<close>

definition digit_char :: "nat \<Rightarrow> char" where
  "digit_char d = ''0123456789'' ! d"

fun show_nat :: "nat \<Rightarrow> string" where
  "show_nat n = (if n < 10 then [digit_char n] else show_nat (n div 10) @ [digit_char (n mod 10)])"

declare show_nat.simps [simp del]

definition show_int :: "int \<Rightarrow> string" where
  "show_int i = (if i < 0 then CHR ''-'' # show_nat (nat (- i)) else show_nat (nat i))"

definition intercalate :: "string \<Rightarrow> string list \<Rightarrow> string" where
  "intercalate sep xs = (case xs of [] \<Rightarrow> [] | x # rest \<Rightarrow> x @ concat (map (\<lambda>y. sep @ y) rest))"

text \<open>\<^verbatim>\<open>String(v)\<close> and \<^verbatim>\<open>`${v}`\<close>. An array prints its elements joined by commas, with
  undefined and null elements empty.\<close>

fun js_to_string :: "jsval \<Rightarrow> string"
  and js_elems_to_string :: "jsval list \<Rightarrow> string list" where
  "js_to_string JUndefined = ''undefined''"
| "js_to_string JNull = ''null''"
| "js_to_string JNaN = ''NaN''"
| "js_to_string (JBool b) = (if b then ''true'' else ''false'')"
| "js_to_string (JNum n) = show_int n"
| "js_to_string (JStr s) = s"
| "js_to_string (JArr xs) = intercalate '','' (js_elems_to_string xs)"
| "js_to_string (JObj kvs) = ''[object Object]''"
| "js_elems_to_string [] = []"
| "js_elems_to_string (x # xs) =
     (if x = JUndefined \<or> x = JNull then [] else js_to_string x) # js_elems_to_string xs"

text \<open>\<^verbatim>\<open>s.trim()\<close>, for the white space of the ASCII range.\<close>

definition is_ws :: "char \<Rightarrow> bool" where
  "is_ws c = (c = CHR '' '' \<or> c = CHR 0x09 \<or> c = CHR 0x0A \<or> c = CHR 0x0B \<or> c = CHR 0x0C \<or> c = CHR 0x0D)"

definition trim :: "string \<Rightarrow> string" where
  "trim s = rev (dropWhile is_ws (rev (dropWhile is_ws s)))"

definition is_digit :: "char \<Rightarrow> bool" where
  "is_digit c = (48 \<le> (of_char c :: nat) \<and> (of_char c :: nat) \<le> 57)"

definition digits_value :: "string \<Rightarrow> nat option" where
  "digits_value s =
     (if s \<noteq> [] \<and> list_all is_digit s
      then Some (foldl (\<lambda>acc c. 10 * acc + (of_char c - 48)) 0 s)
      else None)"

text \<open>ToNumber of a string, for the decimal integers the model has: the empty string is 0,
  an optionally signed run of digits is its value, anything else is NaN (\<open>None\<close>).\<close>

definition str_to_number :: "string \<Rightarrow> int option" where
  "str_to_number s =
     (let t = trim s in
      case t of
        [] \<Rightarrow> Some 0
      | c # r \<Rightarrow>
          (if c = CHR ''-'' then map_option (\<lambda>n. - int n) (digits_value r)
           else if c = CHR ''+'' then map_option int (digits_value r)
           else map_option int (digits_value t)))"

text \<open>ToPrimitive: arrays and objects go through their string form.\<close>

definition to_primitive :: "jsval \<Rightarrow> jsval" where
  "to_primitive v =
     (case v of
        JArr xs \<Rightarrow> JStr (js_to_string v)
      | JObj kvs \<Rightarrow> JStr (js_to_string v)
      | _ \<Rightarrow> v)"

text \<open>ToNumber of a primitive; \<open>None\<close> is NaN.\<close>

definition prim_to_number :: "jsval \<Rightarrow> int option" where
  "prim_to_number v =
     (case v of
        JNull \<Rightarrow> Some 0
      | JBool b \<Rightarrow> Some (if b then 1 else 0)
      | JNum n \<Rightarrow> Some n
      | JStr s \<Rightarrow> str_to_number s
      | _ \<Rightarrow> None)"

fun str_less :: "string \<Rightarrow> string \<Rightarrow> bool" where
  "str_less [] [] = False"
| "str_less [] (y # ys) = True"
| "str_less (x # xs) [] = False"
| "str_less (x # xs) (y # ys) =
     ((of_char x :: nat) < of_char y \<or> (x = y \<and> str_less xs ys))"

text \<open>\<^verbatim>\<open>a >= b\<close>: two strings compare by code units, anything else as numbers, and a
  comparison with NaN is false.\<close>

definition js_ge :: "jsval \<Rightarrow> jsval \<Rightarrow> bool" where
  "js_ge a b =
     (case (to_primitive a, to_primitive b) of
        (JStr x, JStr y) \<Rightarrow> \<not> str_less x y
      | (pa, pb) \<Rightarrow>
          (case (prim_to_number pa, prim_to_number pb) of
             (Some x, Some y) \<Rightarrow> y \<le> x
           | _ \<Rightarrow> False))"

text \<open>\<^verbatim>\<open>a + b\<close>: concatenation as soon as one side is a string, the sum otherwise.\<close>

definition is_str :: "jsval \<Rightarrow> bool" where
  "is_str v = (case v of JStr s \<Rightarrow> True | _ \<Rightarrow> False)"

definition js_add :: "jsval \<Rightarrow> jsval \<Rightarrow> jsval" where
  "js_add a b =
     (let pa = to_primitive a; pb = to_primitive b in
      if is_str pa \<or> is_str pb then JStr (js_to_string pa @ js_to_string pb)
      else (case (prim_to_number pa, prim_to_number pb) of
              (Some x, Some y) \<Rightarrow> JNum (x + y)
            | _ \<Rightarrow> JNaN))"

definition is_array :: "jsval \<Rightarrow> bool" where
  "is_array v = (case v of JArr xs \<Rightarrow> True | _ \<Rightarrow> False)"

subsection \<open>JSON.stringify\<close>

definition hex_digit :: "nat \<Rightarrow> char" where
  "hex_digit d = ''0123456789abcdef'' ! d"

definition json_escape_char :: "char \<Rightarrow> string" where
  "json_escape_char c =
     (if c = CHR 0x22 then [CHR 0x5C, CHR 0x22]
      else if c = CHR 0x5C then [CHR 0x5C, CHR 0x5C]
      else if c = CHR 0x08 then [CHR 0x5C, CHR ''b'']
      else if c = CHR 0x0C then [CHR 0x5C, CHR ''f'']
      else if c = CHR 0x0A then [CHR 0x5C, CHR ''n'']
      else if c = CHR 0x0D then [CHR 0x5C, CHR ''r'']
      else if c = CHR 0x09 then [CHR 0x5C, CHR ''t'']
      else if (of_char c :: nat) < 32
        then [CHR 0x5C, CHR ''u'', CHR ''0'', CHR ''0'',
              hex_digit ((of_char c :: nat) div 16), hex_digit ((of_char c :: nat) mod 16)]
      else [c])"

definition json_quote :: "string \<Rightarrow> string" where
  "json_quote s = CHR 0x22 # concat (map json_escape_char s) @ [CHR 0x22]"

text \<open>A member whose value is undefined is left out of an object and printed as null in an
  array; NaN prints as null.\<close>

fun json_value :: "jsval \<Rightarrow> string"
  and json_elems :: "jsval list \<Rightarrow> string list"
  and json_members :: "(string \<times> jsval) list \<Rightarrow> string list" where
  "json_value JUndefined = ''null''"
| "json_value JNull = ''null''"
| "json_value JNaN = ''null''"
| "json_value (JBool b) = (if b then ''true'' else ''false'')"
| "json_value (JNum n) = show_int n"
| "json_value (JStr s) = json_quote s"
| "json_value (JArr xs) = ''['' @ intercalate '','' (json_elems xs) @ '']''"
| "json_value (JObj kvs) = ''{'' @ intercalate '','' (json_members kvs) @ ''}''"
| "json_elems [] = []"
| "json_elems (x # xs) = json_value x # json_elems xs"
| "json_members [] = []"
| "json_members ((k, v) # kvs) =
     (if v = JUndefined then json_members kvs
      else (json_quote k @ '':'' @ json_value v) # json_members kvs)"

text \<open>\<^verbatim>\<open>JSON.stringify(v)\<close> is undefined, not a string, for undefined itself; the callers pass
  the result to \<^verbatim>\<open>Buffer.from\<close>, which then throws.\<close>

definition json_stringify :: "jsval \<Rightarrow> string option" where
  "json_stringify v = (if v = JUndefined then None else Some (json_value v))"

section \<open>Collaborators and state\<close>

text \<open>
  What the handlers call but do not define: Node's \<^verbatim>\<open>crypto\<close> and \<^verbatim>\<open>Date\<close>, the key and
  signature helpers of \<^verbatim>\<open>utils/signature\<close>, the payload compressor, the identifier hash of
  \<^verbatim>\<open>utils/privacy\<close> and the process environment. They are parameters of the model. A call
  that may throw returns a sum, with \<open>Inl\<close> for the exception. \<open>newDate v\<close> is the time value
  of \<^verbatim>\<open>new Date(v)\<close> and \<open>dateParse v\<close> that of \<^verbatim>\<open>Date.parse(v)\<close>, in milliseconds, with \<open>None\<close>
  for an invalid date.
\<close>

record env =
  sha256hex :: "string \<Rightarrow> string"
  bufferFromHex :: "string \<Rightarrow> string"
  ensureKeyPair :: "string \<Rightarrow> js_error + string"
  signPayload :: "jsval \<Rightarrow> string \<Rightarrow> js_error + string"
  verifySignature :: "jsval \<Rightarrow> jsval \<Rightarrow> string \<Rightarrow> bool"
  compressPayload :: "jsval \<Rightarrow> js_error + jsval"
  decompressPayload :: "jsval \<Rightarrow> js_error + jsval"
  hashIdentifier :: "string \<Rightarrow> string \<Rightarrow> jsval \<Rightarrow> string"
  newDate :: "jsval \<Rightarrow> int option"
  dateParse :: "jsval \<Rightarrow> int option"
  toISOString :: "int \<Rightarrow> string"
  cndpSalt :: "string option"
  lockTimeoutMs :: int

text \<open>What one run of a handler reads from outside: the clock, the random nonce and whether
  the submission to the consensus service resolves.\<close>

record io =
  now :: int
  nowIso :: string
  nonceHex :: string
  hcsOk :: bool

record store_entry =
  prescription :: jsval
  payload :: jsval

record lock =
  owner :: string
  acquiredAt :: int

text \<open>The maps of \<^verbatim>\<open>services/store\<close> and of \<^verbatim>\<open>index.js\<close>, the lock table of
  \<^verbatim>\<open>services/statusReconciliation\<close>, and the calls made to the consensus service.\<close>

record server_state =
  inMemoryStore :: "string \<rightharpoonup> store_entry"
  lastEventHashPerTopic :: "string \<rightharpoonup> string"
  lastEventTypePerTopic :: "string \<rightharpoonup> string"
  usedNonces :: "jsval set"
  prescriptionIndex :: "string \<rightharpoonup> jsobj"
  prescriptionToTopic :: "string \<rightharpoonup> string"
  sensitiveData :: "string \<rightharpoonup> jsobj"
  topicStatus :: "string \<rightharpoonup> string"
  messageQueue :: "(jsval \<times> jsobj) list"
  hcsCalls :: "jsval list list"
  hcsEvents :: "jsobj list"
  dispenseLocks :: "string \<rightharpoonup> lock"

text \<open>A reply is a status and a JSON body; \<open>ServerError e\<close> is the reply of a handler's outer
  \<^verbatim>\<open>catch\<close>: status 500 with \<^verbatim>\<open>{ success: false, error: e.message }\<close>.\<close>

datatype response = Reply nat jsobj | ServerError js_error

definition salt :: "env \<Rightarrow> string" where
  "salt E = (case cndpSalt E of None \<Rightarrow> ''atlascare-default-salt''
             | Some x \<Rightarrow> if x = [] then ''atlascare-default-salt'' else x)"

definition sha256_tag :: "env \<Rightarrow> string \<Rightarrow> string" where
  "sha256_tag E bytes = ''sha256:'' @ sha256hex E bytes"

definition actor_id_hash :: "env \<Rightarrow> string \<Rightarrow> string" where
  "actor_id_hash E nationalId = sha256_tag E (nationalId @ salt E)"

definition key_id :: "env \<Rightarrow> string \<Rightarrow> string" where
  "key_id E publicKeyHex = ''fp:'' @ take 16 (sha256hex E (bufferFromHex E publicKeyHex))"

text \<open>\<^verbatim>\<open>'sha256:' + sha256(Buffer.from(JSON.stringify(o)))\<close> for an object \<open>o\<close>\<close>

definition event_hash :: "env \<Rightarrow> jsobj \<Rightarrow> string" where
  "event_hash E obj = sha256_tag E (json_value (JObj obj))"

subsection \<open>The store helpers\<close>

text \<open>Modelled from the spec: \<^verbatim>\<open>putSensitiveData\<close>, \<^verbatim>\<open>getSensitiveData\<close>, \<^verbatim>\<open>queueMessage\<close>,
  \<^verbatim>\<open>setTopicStatus\<close> and \<^verbatim>\<open>logHCSEvent\<close> of \<^verbatim>\<open>services/store\<close> are not in the sources at hand.
  The spec gives a per-channel side table for the sensitive record, a status per channel
  set through \<^verbatim>\<open>setStatus\<close>, and an audit log that is appended to.\<close>

definition getSensitiveData :: "server_state \<Rightarrow> string \<Rightarrow> jsobj" where
  "getSensitiveData s topic = (case sensitiveData s topic of None \<Rightarrow> [] | Some d \<Rightarrow> d)"

definition putSensitiveData :: "string \<Rightarrow> jsobj \<Rightarrow> server_state \<Rightarrow> server_state" where
  "putSensitiveData topic d s = s\<lparr>sensitiveData := (sensitiveData s)(topic \<mapsto> d)\<rparr>"

definition queueMessage :: "jsval \<Rightarrow> jsobj \<Rightarrow> server_state \<Rightarrow> server_state" where
  "queueMessage topic m s = s\<lparr>messageQueue := messageQueue s @ [(topic, m)]\<rparr>"

definition setTopicStatus :: "string \<Rightarrow> string \<Rightarrow> server_state \<Rightarrow> server_state" where
  "setTopicStatus topic st s = s\<lparr>topicStatus := (topicStatus s)(topic \<mapsto> st)\<rparr>"

definition logHCSEvent :: "jsobj \<Rightarrow> server_state \<Rightarrow> server_state" where
  "logHCSEvent ev s = s\<lparr>hcsEvents := hcsEvents s @ [ev]\<rparr>"

text \<open>\<^verbatim>\<open>submitPrescriptionMessage(...args)\<close> of \<^verbatim>\<open>hedera.js\<close> reaches the external consensus
  service. The model records the arguments of the call; whether it resolves is read from
  \<open>hcsOk\<close> by the caller.\<close>

definition submitPrescriptionMessage :: "jsval list \<Rightarrow> server_state \<Rightarrow> server_state" where
  "submitPrescriptionMessage args s = s\<lparr>hcsCalls := hcsCalls s @ [args]\<rparr>"

subsection \<open>The dispense lock\<close>

text \<open>Modelled from the spec: \<^verbatim>\<open>acquireDispenseLock\<close> and \<^verbatim>\<open>releaseDispenseLock\<close> of
  \<^verbatim>\<open>services/statusReconciliation\<close> are not in the sources at hand. The spec (4.4) gives
  the states free and held(owner, acquiredAt); acquire returns false at once when the
  lock is held by a different owner; a held lock expires after a bounded duration;
  release is idempotent.\<close>

definition lock_expired :: "env \<Rightarrow> int \<Rightarrow> lock \<Rightarrow> bool" where
  "lock_expired E t l = (lockTimeoutMs E \<le> t - acquiredAt l)"

definition held_by_other :: "env \<Rightarrow> int \<Rightarrow> server_state \<Rightarrow> string \<Rightarrow> string \<Rightarrow> bool" where
  "held_by_other E t s topic ownerId =
     (case dispenseLocks s topic of
        None \<Rightarrow> False
      | Some l \<Rightarrow> owner l \<noteq> ownerId \<and> \<not> lock_expired E t l)"

definition acquireDispenseLock ::
  "env \<Rightarrow> int \<Rightarrow> string \<Rightarrow> string \<Rightarrow> server_state \<Rightarrow> bool \<times> server_state" where
  "acquireDispenseLock E t topic ownerId s =
     (if held_by_other E t s topic ownerId then (False, s)
      else (True, s\<lparr>dispenseLocks := (dispenseLocks s)(topic \<mapsto> \<lparr>owner = ownerId, acquiredAt = t\<rparr>)\<rparr>))"

definition releaseDispenseLock :: "string \<Rightarrow> server_state \<Rightarrow> server_state" where
  "releaseDispenseLock topic s = s\<lparr>dispenseLocks := (dispenseLocks s)(topic := None)\<rparr>"

section \<open>POST /api/dispense\<close>

text \<open>The request body as the route's schema admits it: \<open>topicID\<close> and
  \<open>pharmacistNationalId\<close> are required strings, the rest is optional.\<close>

record dispense_req =
  topicID :: string
  pharmacistNationalId :: string
  items :: jsval
  totals :: jsval
  paymentMethod :: "string option"
  prevEventHash :: "string option"

text \<open>\<^verbatim>\<open>prescriptionData?.payload?.dispenseCount || 0\<close> and
  \<^verbatim>\<open>prescriptionData?.payload?.maxDispenses || 1\<close>\<close>

definition entry_payload_prop :: "store_entry option \<Rightarrow> string \<Rightarrow> jsval" where
  "entry_payload_prop prescriptionData k =
     (case prescriptionData of None \<Rightarrow> JUndefined | Some e \<Rightarrow> opt_prop (payload e) k)"

definition currentDispenseCount :: "server_state \<Rightarrow> string \<Rightarrow> jsval" where
  "currentDispenseCount s topic =
     js_or (entry_payload_prop (inMemoryStore s topic) ''dispenseCount'') (JNum 0)"

definition maxDispenses :: "server_state \<Rightarrow> string \<Rightarrow> jsval" where
  "maxDispenses s topic =
     js_or (entry_payload_prop (inMemoryStore s topic) ''maxDispenses'') (JNum 1)"

text \<open>\<^verbatim>\<open>prevEventHash || lastEventHashPerTopic.get(topicID) || undefined\<close>\<close>

definition chainPrev :: "server_state \<Rightarrow> dispense_req \<Rightarrow> jsval" where
  "chainPrev s req =
     js_or (js_or (opt_str (prevEventHash req)) (opt_str (lastEventHashPerTopic s (topicID req))))
           JUndefined"

definition dispense_base :: "env \<Rightarrow> io \<Rightarrow> server_state \<Rightarrow> dispense_req \<Rightarrow> jsobj" where
  "dispense_base E i s req =
     [(''version'', JStr ''1''),
      (''alg'', JStr ''secp256k1+SHA-256''),
      (''eventType'', JStr ''dispensed''),
      (''topicID'', JStr (topicID req)),
      (''timestamp'', JStr (nowIso i)),
      (''signerRole'', JStr ''pharmacist''),
      (''actorIdHash'', JStr (actor_id_hash E (pharmacistNationalId req))),
      (''items'', if is_array (items req) then items req else JUndefined),
      (''totals'', js_or (totals req) JUndefined),
      (''paymentMethod'', js_or (opt_str (paymentMethod req)) JUndefined),
      (''prevEventHash'', chainPrev s req),
      (''dispenseCount'', js_add (currentDispenseCount s (topicID req)) (JNum 1)),
      (''maxDispenses'', maxDispenses s (topicID req))]"

text \<open>Signing: \<^verbatim>\<open>toHash = { ...base, keyId, nonce }\<close>, the content hash over \<open>toHash\<close>,
  \<^verbatim>\<open>signed = { ...toHash, contentHash }\<close>, the signature over \<open>signed\<close>. The same four
  lines stand in the dispense, payment and verify handlers.\<close>

definition to_hash :: "env \<Rightarrow> io \<Rightarrow> jsobj \<Rightarrow> string \<Rightarrow> jsobj" where
  "to_hash E i base publicKeyHex =
     obj_set (obj_set base ''keyId'' (JStr (key_id E publicKeyHex))) ''nonce'' (JStr (nonceHex i))"

definition with_content_hash :: "env \<Rightarrow> jsobj \<Rightarrow> jsobj" where
  "with_content_hash E toHash = obj_set toHash ''contentHash'' (JStr (event_hash E toHash))"

definition sign_event :: "env \<Rightarrow> io \<Rightarrow> jsobj \<Rightarrow> string \<Rightarrow> js_error + jsobj" where
  "sign_event E i base nationalId =
     (case ensureKeyPair E nationalId of
        Inl e \<Rightarrow> Inl e
      | Inr publicKeyHex \<Rightarrow>
          (let signed = with_content_hash E (to_hash E i base publicKeyHex) in
           case signPayload E (JObj signed) nationalId of
             Inl e \<Rightarrow> Inl e
           | Inr signature \<Rightarrow> Inr (obj_set signed ''signature'' (JStr (''hex:'' @ signature)))))"

definition dispense_event :: "env \<Rightarrow> io \<Rightarrow> server_state \<Rightarrow> dispense_req \<Rightarrow> js_error + jsobj" where
  "dispense_event E i s req = sign_event E i (dispense_base E i s req) (pharmacistNationalId req)"

text \<open>\<^verbatim>\<open>prescriptionData.payload.dispenseCount = n; prescriptionData.payload.lastDispenseDate = d\<close>:
  a TypeError when the payload is undefined or null; dropped without effect on any other
  value that is not an object.\<close>

definition set_dispense_tracking :: "store_entry \<Rightarrow> jsval \<Rightarrow> string \<Rightarrow> js_error + store_entry" where
  "set_dispense_tracking e n d =
     (case payload e of
        JUndefined \<Rightarrow> Inl (TypeError ''dispenseCount'')
      | JNull \<Rightarrow> Inl (TypeError ''dispenseCount'')
      | JObj kvs \<Rightarrow>
          Inr (e\<lparr>payload := JObj (obj_set (obj_set kvs ''dispenseCount'' n) ''lastDispenseDate'' (JStr d))\<rparr>)
      | _ \<Rightarrow> Inr e)"

definition dispense_log_event :: "env \<Rightarrow> io \<Rightarrow> server_state \<Rightarrow> dispense_req \<Rightarrow> jsval \<Rightarrow> jsval \<Rightarrow> jsobj" where
  "dispense_log_event E i s req newDispenseCount maxD =
     [(''topicID'', JStr (topicID req)),
      (''eventType'', JStr ''dispensed''),
      (''timestamp'', JStr (nowIso i)),
      (''signerRole'', JStr ''pharmacist''),
      (''actorIdHash'', JStr (actor_id_hash E (pharmacistNationalId req))),
      (''dispenseCount'', newDispenseCount),
      (''maxDispenses'', maxD),
      (''fraudAlert'', JNull),
      (''drugIds'', js_or (entry_payload_prop (inMemoryStore s (topicID req)) ''drugIds'') (JArr [])),
      (''prescriptionId'',
         js_or (case inMemoryStore s (topicID req) of
                  None \<Rightarrow> JUndefined
                | Some e \<Rightarrow> opt_prop (prescription e) ''id'')
               (JStr (topicID req))),
      (''paymentMethod'', opt_str (paymentMethod req)),
      (''totals'', totals req)]"

text \<open>The last \<^verbatim>\<open>try\<close> block of the handler, statement by statement. \<open>s0\<close> is the state
  the handler read \<open>prescriptionData\<close> and the counts from.\<close>

definition commit_head :: "env \<Rightarrow> string \<Rightarrow> jsobj \<Rightarrow> server_state \<Rightarrow> server_state" where
  "commit_head E topic pl s =
     s\<lparr>lastEventHashPerTopic := (lastEventHashPerTopic s)(topic \<mapsto> event_hash E pl),
       lastEventTypePerTopic := (lastEventTypePerTopic s)(topic \<mapsto> ''dispensed'')\<rparr>"

definition commit_tracking ::
  "io \<Rightarrow> string \<Rightarrow> jsval \<Rightarrow> store_entry option \<Rightarrow> server_state \<Rightarrow> js_error + server_state" where
  "commit_tracking i topic newDispenseCount prescriptionData s =
     (case prescriptionData of
        None \<Rightarrow> Inr s
      | Some e \<Rightarrow>
          (case set_dispense_tracking e newDispenseCount (nowIso i) of
             Inl err \<Rightarrow> Inl err
           | Inr e' \<Rightarrow> Inr (s\<lparr>inMemoryStore := (inMemoryStore s)(topic \<mapsto> e')\<rparr>)))"

definition commit_index :: "io \<Rightarrow> string \<Rightarrow> jsval \<Rightarrow> server_state \<Rightarrow> server_state" where
  "commit_index i topic newDispenseCount s =
     (case prescriptionIndex s topic of
        None \<Rightarrow> s
      | Some prescriptionRecord \<Rightarrow>
          s\<lparr>prescriptionIndex := (prescriptionIndex s)(topic \<mapsto>
               obj_set (obj_set prescriptionRecord ''dispenseCount'' newDispenseCount)
                 ''lastDispenseDate'' (JStr (nowIso i)))\<rparr>)"

text \<open>The block's \<^verbatim>\<open>catch (_) { }\<close> swallows the exception and keeps what was written
  before it.\<close>

definition dispense_commit ::
  "env \<Rightarrow> io \<Rightarrow> server_state \<Rightarrow> dispense_req \<Rightarrow> jsobj \<Rightarrow> server_state \<Rightarrow> server_state" where
  "dispense_commit E i s0 req pl s =
     (let topic = topicID req;
          newDispenseCount = js_add (currentDispenseCount s0 topic) (JNum 1);
          s1 = commit_head E topic pl s
      in case commit_tracking i topic newDispenseCount (inMemoryStore s0 topic) s1 of
           Inl err \<Rightarrow> s1
         | Inr s2 \<Rightarrow>
             (let s3 = commit_index i topic newDispenseCount s2
              in logHCSEvent (dispense_log_event E i s3 req newDispenseCount (maxDispenses s0 topic))
                   (setTopicStatus topic ''dispensed'' s3)))"

definition fully_dispensed_message :: "jsval \<Rightarrow> jsval \<Rightarrow> string" where
  "fully_dispensed_message c m =
     ''Prescription fully dispensed ('' @ js_to_string c @ ''/'' @ js_to_string m @ '')''"

text \<open>The body of the handler's outer \<^verbatim>\<open>try\<close>, entered with the lock held.\<close>

definition dispense_locked :: "env \<Rightarrow> io \<Rightarrow> server_state \<Rightarrow> dispense_req \<Rightarrow> response \<times> server_state" where
  "dispense_locked E i s req =
     (let topic = topicID req;
          cur = currentDispenseCount s topic;
          maxD = maxDispenses s topic
      in if js_ge cur maxD
         then (Reply 400 [(''success'', JBool False),
                          (''message'', JStr (fully_dispensed_message cur maxD))],
               releaseDispenseLock topic s)
         else
           (case dispense_event E i s req of
              Inl e \<Rightarrow> (ServerError e, releaseDispenseLock topic s)
            | Inr pl \<Rightarrow>
                (let s1 = putSensitiveData topic
                            (obj_set (obj_set (obj_set (getSensitiveData s topic)
                               ''dispensedItems'' (items req))
                               ''dispensedTotals'' (totals req))
                               ''paymentMethod'' (opt_str (paymentMethod req))) s
                 in case compressPayload E (JObj pl) of
                      Inl e \<Rightarrow> (ServerError e, releaseDispenseLock topic s1)
                    | Inr compressedPayload \<Rightarrow>
                        (let s2 = queueMessage (JStr topic)
                                    [(''eventType'', JStr ''dispensed''), (''payload'', compressedPayload)] s1;
                             s3 = submitPrescriptionMessage [JStr topic, compressedPayload] s2;
                             s4 = dispense_commit E i s req pl s3
                         in (Reply 200 [(''success'', JBool True)], releaseDispenseLock topic s4)))))"

definition dispense :: "env \<Rightarrow> io \<Rightarrow> server_state \<Rightarrow> dispense_req \<Rightarrow> response \<times> server_state" where
  "dispense E i s req =
     (case acquireDispenseLock E (now i) (topicID req) (pharmacistNationalId req) s of
        (False, s') \<Rightarrow>
          (Reply 409 [(''success'', JBool False),
                      (''message'', JStr ''Another dispense operation is in progress for this prescription''),
                      (''error'', JStr ''CONCURRENT_DISPENSE_ATTEMPT'')], s')
      | (True, s') \<Rightarrow> dispense_locked E i s' req)"

subsection \<open>Sequences of dispense requests\<close>

text \<open>Requests served one after the other: each handler run ends before the next begins.\<close>

fun dispense_all :: "env \<Rightarrow> server_state \<Rightarrow> (io \<times> dispense_req) list \<Rightarrow> server_state" where
  "dispense_all E s [] = s"
| "dispense_all E s ((i, req) # rest) = dispense_all E (snd (dispense E i s req)) rest"

text \<open>The count and the limit as stored in the channel's payload.\<close>

definition storedDispenseCount :: "server_state \<Rightarrow> string \<Rightarrow> jsval" where
  "storedDispenseCount s topic = entry_payload_prop (inMemoryStore s topic) ''dispenseCount''"

definition storedMaxDispenses :: "server_state \<Rightarrow> string \<Rightarrow> jsval" where
  "storedMaxDispenses s topic = entry_payload_prop (inMemoryStore s topic) ''maxDispenses''"

definition channel_at :: "server_state \<Rightarrow> string \<Rightarrow> int \<Rightarrow> int \<Rightarrow> bool" where
  "channel_at s topic c N =
     (storedDispenseCount s topic = JNum c \<and> storedMaxDispenses s topic = JNum N \<and>
      dispenseLocks s topic = None)"

text \<open>The key, signature and compression helpers return instead of throwing.\<close>

definition collaborators_total :: "env \<Rightarrow> bool" where
  "collaborators_total E =
     ((\<forall>n. \<not> isl (ensureKeyPair E n)) \<and> (\<forall>p n. \<not> isl (signPayload E p n)) \<and>
      (\<forall>p. \<not> isl (compressPayload E p)))"

definition ok_reply :: response where
  "ok_reply = Reply 200 [(''success'', JBool True)]"

definition fully_dispensed_reply :: "int \<Rightarrow> int \<Rightarrow> response" where
  "fully_dispensed_reply c N =
     Reply 400 [(''success'', JBool False),
                (''message'', JStr (''Prescription fully dispensed ('' @ show_int c @ ''/'' @ show_int N @ '')''))]"

definition conflict_reply :: response where
  "conflict_reply =
     Reply 409 [(''success'', JBool False),
                (''message'', JStr ''Another dispense operation is in progress for this prescription''),
                (''error'', JStr ''CONCURRENT_DISPENSE_ATTEMPT'')]"

section \<open>POST /api/payments\<close>

text \<open>The route has no schema. The fields are typed as the front end sends them: the two
  identifiers as strings when present, the amount and the method as any value.\<close>

record payment_req =
  pay_prescriptionId :: "string option"
  pay_pharmacistNationalId :: "string option"
  pay_amountMAD :: jsval
  pay_method :: jsval

text \<open>\<^verbatim>\<open>lastEventHashPerTopic.get(topicID) || undefined\<close>: the head of the channel as the
  event builders read it.\<close>

definition channel_head :: "server_state \<Rightarrow> string \<Rightarrow> jsval" where
  "channel_head s topic = js_or (opt_str (lastEventHashPerTopic s topic)) JUndefined"

definition paid_base :: "env \<Rightarrow> io \<Rightarrow> server_state \<Rightarrow> string \<Rightarrow> string \<Rightarrow> payment_req \<Rightarrow> jsobj" where
  "paid_base E i s topic nationalId req =
     [(''version'', JStr ''1''),
      (''alg'', JStr ''secp256k1+SHA-256''),
      (''eventType'', JStr ''paid''),
      (''topicID'', JStr topic),
      (''timestamp'', JStr (nowIso i)),
      (''signerRole'', JStr ''pharmacist''),
      (''actorIdHash'', JStr (actor_id_hash E nationalId)),
      (''amountMAD'', js_or (pay_amountMAD req) JUndefined),
      (''method'', js_or (pay_method req) JUndefined),
      (''prevEventHash'', channel_head s topic)]"

definition paid_event ::
  "env \<Rightarrow> io \<Rightarrow> server_state \<Rightarrow> string \<Rightarrow> string \<Rightarrow> payment_req \<Rightarrow> js_error + jsobj" where
  "paid_event E i s topic nationalId req =
     sign_event E i (paid_base E i s topic nationalId req) nationalId"







section \<open>POST /api/verify\<close>

text \<open>The request body as the route's schema admits it: an optional object \<open>payload\<close> and
  four optional strings, each of which may be empty. The schema has no other key, so
  \<^verbatim>\<open>req.body.geo\<close> is undefined in the handler.\<close>

record verify_req =
  v_payload :: jsval
  v_topicID :: "string option"
  v_doctorNationalId :: "string option"
  v_pharmacistNationalId :: "string option"
  v_pharmacyId :: "string option"

text \<open>\<^verbatim>\<open>x && x.trim() !== '' ? x : undefined\<close>\<close>

definition normalized :: "string option \<Rightarrow> string option" where
  "normalized x =
     (case x of None \<Rightarrow> None | Some t \<Rightarrow> if t \<noteq> [] \<and> trim t \<noteq> [] then Some t else None)"

definition record_prop :: "jsobj option \<Rightarrow> string \<Rightarrow> jsval" where
  "record_prop r k = (case r of None \<Rightarrow> JUndefined | Some kvs \<Rightarrow> get_prop kvs k)"

text \<open>The maps are keyed by the topic strings the handlers store. A lookup with a key that
  is not a string finds nothing.\<close>

definition topic_key :: "jsval \<Rightarrow> string option" where
  "topic_key pl = (case opt_prop pl ''topicID'' of JStr t \<Rightarrow> Some t | _ \<Rightarrow> None)"

definition by_key :: "(string \<rightharpoonup> 'a) \<Rightarrow> string option \<Rightarrow> 'a option" where
  "by_key m k = (case k of None \<Rightarrow> None | Some t \<Rightarrow> m t)"

definition reconstructed_payload :: "io \<Rightarrow> string \<Rightarrow> string option \<Rightarrow> jsobj \<Rightarrow> jsobj" where
  "reconstructed_payload i topic doctorId pr =
     [(''eventType'', JStr ''issued''),
      (''topicID'', JStr topic),
      (''prescriptionId'', js_or (get_prop pr ''prescriptionId'') (get_prop pr ''id'')),
      (''doctorNationalId'', js_or (get_prop pr ''doctorNationalId'') (opt_str doctorId)),
      (''timestamp'', js_or (get_prop pr ''date'') (JStr (nowIso i))),
      (''maxDispenses'', js_or (get_prop pr ''maxDispenses'') (JNum 1))]"

text \<open>The payload of the request, or else the stored payload of the topic, or else one
  rebuilt from the prescription index.\<close>

definition lookup_payload :: "server_state \<Rightarrow> io \<Rightarrow> verify_req \<Rightarrow> jsval" where
  "lookup_payload s i req =
     (if truthy (v_payload req) then v_payload req
      else
        (case normalized (v_topicID req) of
           None \<Rightarrow> v_payload req
         | Some topic \<Rightarrow>
             (let p = js_or (case inMemoryStore s topic of None \<Rightarrow> JUndefined | Some e \<Rightarrow> payload e)
                            JNull
              in if truthy p then p
                 else (case prescriptionIndex s topic of
                         None \<Rightarrow> p
                       | Some pr \<Rightarrow>
                           JObj (reconstructed_payload i topic (normalized (v_doctorNationalId req)) pr)))))"

definition not_found_reply :: response where
  "not_found_reply =
     Reply 400 [(''success'', JBool False), (''valid'', JBool False),
                (''message'', JStr ''Prescription not found. Please scan the QR code or look up the prescription first.'')]"

text \<open>\<^verbatim>\<open>payload?.e && !payload?.eventType\<close>: the test for the compressed form.\<close>

definition is_compressed :: "jsval \<Rightarrow> bool" where
  "is_compressed pl = (truthy (opt_prop pl ''e'') \<and> \<not> truthy (opt_prop pl ''eventType''))"

text \<open>After decompression the handler logs \<^verbatim>\<open>payload.eventType || payload.e\<close>, which throws
  on an undefined or null result.\<close>

definition verify_decompress :: "env \<Rightarrow> jsval \<Rightarrow> js_error + jsval" where
  "verify_decompress E pl =
     (if is_compressed pl
      then (case decompressPayload E pl of
              Inl e \<Rightarrow> Inl e
            | Inr pl' \<Rightarrow>
                (case must_prop pl' ''eventType'' of
                   Inl e \<Rightarrow> Inl e
                 | Inr t \<Rightarrow> Inr pl'))
      else Inr pl)"

definition verify_fully_dispensed_reply :: "nat \<Rightarrow> jsval \<Rightarrow> jsval \<Rightarrow> response" where
  "verify_fully_dispensed_reply code c m =
     Reply code [(''success'', JBool False), (''valid'', JBool False),
                 (''message'', JStr (fully_dispensed_message c m))]"

text \<open>The first dispense check, against the stored counts, made when the last event of
  the topic is 'dispensed' or 'paid'.\<close>

definition verify_stored_counts :: "server_state \<Rightarrow> jsval \<Rightarrow> response option" where
  "verify_stored_counts s pl =
     (let k = topic_key pl; t = by_key (lastEventTypePerTopic s) k
      in if t = Some ''dispensed'' \<or> t = Some ''paid''
         then
           (let prescriptionData = by_key (inMemoryStore s) k;
                prescriptionRecord = by_key (prescriptionIndex s) k;
                cur = js_or (js_or (entry_payload_prop prescriptionData ''dispenseCount'')
                                   (record_prop prescriptionRecord ''dispenseCount'')) (JNum 0);
                maxD = js_or (js_or (js_or (js_or
                          (entry_payload_prop prescriptionData ''maxDispenses'')
                          (record_prop prescriptionRecord ''maxDispenses''))
                          (opt_prop pl ''md'')) (opt_prop pl ''maxDispenses'')) (JNum 1)
            in if js_ge cur maxD then Some (verify_fully_dispensed_reply 409 cur maxD) else None)
         else None)"

definition verify_version :: "jsval \<Rightarrow> response option" where
  "verify_version pl =
     (if truthy (opt_prop pl ''v'') \<and> opt_prop pl ''v'' \<noteq> JStr ''1.0''
      then Some (Reply 400 [(''success'', JBool False), (''valid'', JBool False),
                            (''message'', JStr ''Unsupported QR version'')])
      else None)"

definition verify_expiry :: "env \<Rightarrow> io \<Rightarrow> jsval \<Rightarrow> response option" where
  "verify_expiry E i pl =
     (if truthy (opt_prop pl ''u'')
      then (case newDate E (opt_prop pl ''u'') of
              None \<Rightarrow> None
            | Some validUntil \<Rightarrow>
                if validUntil < now i
                then Some (Reply 400 [(''success'', JBool False), (''valid'', JBool False),
                                      (''message'', JStr ''Prescription expired''),
                                      (''expiredAt'', JStr (toISOString E validUntil))])
                else None)
      else None)"

text \<open>The second dispense check, against the counts the payload itself carries.\<close>

definition verify_payload_counts :: "jsval \<Rightarrow> response option" where
  "verify_payload_counts pl =
     (let dispenseCount = nullish (opt_prop pl ''dispenseCount'') (opt_prop pl ''dc'');
          maxD = nullish (opt_prop pl ''maxDispenses'') (opt_prop pl ''md'')
      in if dispenseCount \<noteq> JUndefined \<and> maxD \<noteq> JUndefined \<and> js_ge dispenseCount maxD
         then Some (verify_fully_dispensed_reply 400 dispenseCount maxD)
         else None)"

text \<open>\<^verbatim>\<open>a?.[0]\<close>\<close>

definition first_elem :: "jsval \<Rightarrow> jsval" where
  "first_elem v =
     (case v of
        JArr xs \<Rightarrow> (case xs of [] \<Rightarrow> JUndefined | x # rest \<Rightarrow> x)
      | JStr cs \<Rightarrow> (case cs of [] \<Rightarrow> JUndefined | c # rest \<Rightarrow> JStr [c])
      | JObj kvs \<Rightarrow> get_prop kvs ''0''
      | _ \<Rightarrow> JUndefined)"

text \<open>The short-key object the doctor's signature is checked against.\<close>

definition signed_payload :: "jsval \<Rightarrow> jsobj" where
  "signed_payload pl =
     [(''v'', js_or (js_or (opt_prop pl ''v'') (opt_prop pl ''version'')) (JStr ''1.0'')),
      (''t'', js_or (opt_prop pl ''t'') (opt_prop pl ''topicID'')),
      (''h'', js_or (opt_prop pl ''h'') (opt_prop pl ''hashedPatientId'')),
      (''d'', js_or (js_or (opt_prop pl ''d'') (opt_prop pl ''drugId''))
                    (first_elem (opt_prop pl ''drugIds''))),
      (''q'', js_or (opt_prop pl ''q'') (opt_prop pl ''quantity'')),
      (''i'', js_or (js_or (opt_prop pl ''i'') (opt_prop pl ''instructions''))
                    (first_elem (opt_prop pl ''instructionsList''))),
      (''u'', js_or (opt_prop pl ''u'') (opt_prop pl ''validUntil'')),
      (''n'', js_or (opt_prop pl ''n'') (opt_prop pl ''nonce'')),
      (''g'', js_or (opt_prop pl ''g'') (opt_prop pl ''geoTag'')),
      (''p'', js_or (opt_prop pl ''p'') (opt_prop pl ''doctorIdHash'')),
      (''dc'', nullish (nullish (opt_prop pl ''dc'') (opt_prop pl ''dispenseCount'')) (JNum 0)),
      (''md'', nullish (nullish (opt_prop pl ''md'') (opt_prop pl ''maxDispenses'')) (JNum 1))]"

definition payload_signature :: "jsval \<Rightarrow> jsval" where
  "payload_signature pl = js_or (opt_prop pl ''signature'') (opt_prop pl ''s'')"

text \<open>\<^verbatim>\<open>signatureValid\<close>: true when no doctor id is given, false when the payload has no
  signature, and the verdict of \<^verbatim>\<open>verifySignature\<close> otherwise.\<close>

definition signature_valid :: "env \<Rightarrow> verify_req \<Rightarrow> jsval \<Rightarrow> bool" where
  "signature_valid E req pl =
     (case normalized (v_doctorNationalId req) of
        None \<Rightarrow> True
      | Some doctorId \<Rightarrow>
          if truthy (payload_signature pl)
          then verifySignature E (JObj (signed_payload pl)) (payload_signature pl) doctorId
          else False)"

text \<open>Everything up to the nonce guard: an early reply, or the payload to go on with and
  the signature verdict. Nothing is written so far.\<close>

definition verify_prechecks ::
  "env \<Rightarrow> io \<Rightarrow> server_state \<Rightarrow> verify_req \<Rightarrow> response + (jsval \<times> bool)" where
  "verify_prechecks E i s req =
     (let pl0 = lookup_payload s i req
      in if \<not> truthy pl0 then Inl not_found_reply
         else
           (case verify_decompress E pl0 of
              Inl e \<Rightarrow> Inl (ServerError e)
            | Inr pl \<Rightarrow>
                (case verify_stored_counts s pl of
                   Some r \<Rightarrow> Inl r
                 | None \<Rightarrow>
                     (case verify_version pl of
                        Some r \<Rightarrow> Inl r
                      | None \<Rightarrow>
                          (case verify_expiry E i pl of
                             Some r \<Rightarrow> Inl r
                           | None \<Rightarrow>
                               (case verify_payload_counts pl of
                                  Some r \<Rightarrow> Inl r
                                | None \<Rightarrow> Inr (pl, signature_valid E req pl)))))))"

definition duplicate_nonce_reply :: response where
  "duplicate_nonce_reply =
     Reply 409 [(''success'', JBool False), (''valid'', JBool False),
                (''message'', JStr ''Duplicate prescription nonce'')]"

text \<open>The nonce guard. \<^verbatim>\<open>usedNonces\<close> is a Set; membership is by value for the strings a
  nonce is, and the model compares every value that way.\<close>

definition verify_nonce :: "server_state \<Rightarrow> jsval \<Rightarrow> response + server_state" where
  "verify_nonce s pl =
     (let nonce = opt_prop pl ''nonce''
      in if truthy nonce
         then (if nonce \<in> usedNonces s then Inl duplicate_nonce_reply
               else Inr (s\<lparr>usedNonces := insert nonce (usedNonces s)\<rparr>))
         else Inr s)"

subsection \<open>The block that builds the 'verified' event\<close>

text \<open>The identifiers in scope where the block computes \<^verbatim>\<open>verification\<close>: the constants of
  the block declared before that line, those of the handler's \<^verbatim>\<open>try\<close>, the handler's
  parameters, and the bindings at the top level of the module. The values of the
  handler's data are the ones it holds at that point; functions, maps and modules are
  an opaque object.\<close>

definition opaque :: jsval where
  "opaque = JObj []"

definition module_names :: "string list" where
  "module_names =
     [''express'', ''cors'', ''uuidv4'', ''helmet'', ''rateLimit'', ''storePrescription'',
      ''getPrescription'', ''submitAuditMessage'', ''buildFHIRPrescription'', ''sendEmail'',
      ''generatePrescriptionPdf'', ''generatePharmacistReport'', ''hashIdentifier'', ''issueOtp'',
      ''verifyOtp'', ''generateFSE'', ''orchestrator'', ''verifyPrescriptionOnMirror'',
      ''initQueue'', ''enqueueIssue'', ''waitForJob'', ''isQueueEnabled'', ''signToken'',
      ''authenticateJWT'', ''requireRole'', ''celebrate'', ''Joi'', ''Segments'',
      ''celebrateErrors'', ''crypto'', ''ensureKeyPair'', ''signPayload'', ''verifySignature'',
      ''putPayload'', ''queueMessage'', ''inMemoryStore'', ''lastEventHashPerTopic'',
      ''lastEventTypePerTopic'', ''hashLookup'', ''putSensitiveData'', ''getSensitiveData'',
      ''queueSyncLoop'', ''compressPayload'', ''decompressPayload'', ''compressGeotag'', ''path'',
      ''fs'', ''XLSX'', ''app'', ''PORT'', ''allowedOrigins'', ''limiter'',
      ''generatePrescriptionId'', ''generateInvoiceId'', ''cnopsCatalog'', ''normalizeKey'',
      ''pickField'', ''deriveCatalogRow'', ''loadCnopsCatalog'', ''users'', ''prescriptionIndex'',
      ''prescriptionToTopic'', ''topicIndex'', ''indexPersistence'', ''medicinesCache'',
      ''medicinesCacheTimestamp'', ''loadMedicinesCache'',
      ''require'', ''module'', ''exports'', ''__dirname'', ''__filename'', ''process'',
      ''console'', ''Buffer'', ''Date'', ''JSON'', ''Math'', ''String'', ''Array'', ''Object'',
      ''Number'', ''Map'', ''setTimeout'', ''undefined'']"

definition module_scope :: "(string \<times> jsval) list" where
  "module_scope = map (\<lambda>n. (n, opaque)) module_names"

definition verified_block_scope ::
  "verify_req \<Rightarrow> jsval \<Rightarrow> bool \<Rightarrow> jsval \<Rightarrow> (string \<times> jsval) list" where
  "verified_block_scope req pl signatureValid prev =
     [(''queueMessage'', opaque),
      (''lastEventHashPerTopic'', opaque),
      (''prevEventHash'', prev),
      (''payloadIn'', v_payload req),
      (''topicID'', opt_str (v_topicID req)),
      (''doctorNationalId'', opt_str (v_doctorNationalId req)),
      (''pharmacistNationalId'', opt_str (v_pharmacistNationalId req)),
      (''pharmacyId'', opt_str (v_pharmacyId req)),
      (''normalizedTopicID'', opt_str (normalized (v_topicID req))),
      (''normalizedDoctorId'', opt_str (normalized (v_doctorNationalId req))),
      (''normalizedPharmacistId'', opt_str (normalized (v_pharmacistNationalId req))),
      (''payload'', pl),
      (''dispenseCount'', nullish (opt_prop pl ''dispenseCount'') (opt_prop pl ''dc'')),
      (''maxDispenses'', nullish (opt_prop pl ''maxDispenses'') (opt_prop pl ''md'')),
      (''signatureValid'', JBool signatureValid),
      (''signatureStatus'',
         JObj [(''signatureValid'',
                  (case normalized (v_doctorNationalId req) of
                     None \<Rightarrow> JNull | Some d \<Rightarrow> JBool signatureValid)),
               (''signatureChecked'', JBool (normalized (v_doctorNationalId req) \<noteq> None))]),
      (''fraudAlert'', JNull),
      (''req'', opaque),
      (''res'', opaque)] @ module_scope"

text \<open>Reading an identifier: its value, or a ReferenceError when nothing in scope has the
  name.\<close>

definition resolve_identifier :: "(string \<times> jsval) list \<Rightarrow> string \<Rightarrow> js_error + jsval" where
  "resolve_identifier scope x =
     (case map_of scope x of None \<Rightarrow> Inl (ReferenceError x) | Some v \<Rightarrow> Inr v)"

text \<open>\<^verbatim>\<open>lastEventHashPerTopic.get(payload.topicID) || ('sha256:' + sha256(JSON.stringify(payload)))\<close>\<close>

definition verified_prev :: "env \<Rightarrow> server_state \<Rightarrow> jsval \<Rightarrow> js_error + jsval" where
  "verified_prev E s pl =
     (let h = opt_str (by_key (lastEventHashPerTopic s) (topic_key pl))
      in if truthy h then Inr h
         else (case json_stringify pl of
                 None \<Rightarrow> Inl (TypeError ''Buffer.from'')
               | Some text \<Rightarrow> Inr (JStr (sha256_tag E text))))"

definition verified_base ::
  "env \<Rightarrow> io \<Rightarrow> verify_req \<Rightarrow> jsval \<Rightarrow> jsval \<Rightarrow> jsval \<Rightarrow> jsobj" where
  "verified_base E i req pl ok prev =
     [(''version'', JStr ''1''),
      (''alg'', JStr ''secp256k1+SHA-256''),
      (''eventType'', JStr ''verified''),
      (''topicID'', opt_prop pl ''topicID''),
      (''timestamp'', JStr (nowIso i)),
      (''signerRole'', JStr ''pharmacist''),
      (''actorIdHash'',
         (if truthy (opt_str (v_pharmacistNationalId req))
          then JStr (actor_id_hash E (the (v_pharmacistNationalId req)))
          else JNull)),
      (''drugIds'', js_or (opt_prop pl ''drugIds'') (JArr [opt_prop pl ''d''])),
      (''verification'',
         JObj [(''signatureOk'', JBool (truthy ok)),
               (''validUntilOk'',
                  JBool (\<not> truthy (opt_prop pl ''validUntil'') \<or>
                         (case dateParse E (opt_prop pl ''validUntil'') of
                            None \<Rightarrow> False | Some t \<Rightarrow> now i \<le> t)))]),
      (''prevEventHash'', prev),
      (''dispenseCount'', js_or (opt_prop pl ''dc'') (JNum 0)),
      (''maxDispenses'', js_or (opt_prop pl ''md'') (JNum 1)),
      (''fraudAlert'', JUndefined)]"

text \<open>The maps take the topic of the payload as key; the model keeps the entry when that
  key is a string.\<close>

definition set_by_key :: "(string \<rightharpoonup> 'a) \<Rightarrow> string option \<Rightarrow> 'a \<Rightarrow> (string \<rightharpoonup> 'a)" where
  "set_by_key m k v = (case k of None \<Rightarrow> m | Some t \<Rightarrow> m(t \<mapsto> v))"

text \<open>The statements of the block inside its \<^verbatim>\<open>try\<close>, up to the first exception.\<close>

definition verified_try ::
  "env \<Rightarrow> io \<Rightarrow> server_state \<Rightarrow> verify_req \<Rightarrow> jsval \<Rightarrow> bool \<Rightarrow> js_error + server_state" where
  "verified_try E i s req pl signatureValid =
     (case verified_prev E s pl of
        Inl e \<Rightarrow> Inl e
      | Inr prev \<Rightarrow>
          (case resolve_identifier (verified_block_scope req pl signatureValid prev) ''ok'' of
             Inl e \<Rightarrow> Inl e
           | Inr ok \<Rightarrow>
               (let msgBase = verified_base E i req pl ok prev
                in case (if truthy (opt_str (v_pharmacistNationalId req))
                         then sign_event E i msgBase (the (v_pharmacistNationalId req))
                         else Inr msgBase) of
                     Inl e \<Rightarrow> Inl e
                   | Inr msg \<Rightarrow>
                       (case compressPayload E (JObj msg) of
                          Inl e \<Rightarrow> Inl e
                        | Inr compressedMsg \<Rightarrow>
                            (let s1 = queueMessage (opt_prop pl ''topicID'')
                                        [(''eventType'', JStr ''verified''), (''payload'', compressedMsg)] s;
                                 s2 = submitPrescriptionMessage [compressedMsg] s1
                             in Inr (s2\<lparr>lastEventHashPerTopic :=
                                          set_by_key (lastEventHashPerTopic s2) (topic_key pl) (event_hash E msg),
                                        lastEventTypePerTopic :=
                                          set_by_key (lastEventTypePerTopic s2) (topic_key pl) ''verified''\<rparr>))))))"

text \<open>The block with its \<^verbatim>\<open>catch (_) { }\<close>. Every statement that can throw stands before
  the first write, so a caught exception leaves the state as it was.\<close>

definition verified_block ::
  "env \<Rightarrow> io \<Rightarrow> server_state \<Rightarrow> verify_req \<Rightarrow> jsval \<Rightarrow> bool \<Rightarrow> server_state" where
  "verified_block E i s req pl signatureValid =
     (case verified_try E i s req pl signatureValid of Inl e \<Rightarrow> s | Inr s' \<Rightarrow> s')"

subsection \<open>The handler\<close>

definition verify_log_event :: "env \<Rightarrow> io \<Rightarrow> verify_req \<Rightarrow> jsval \<Rightarrow> jsobj" where
  "verify_log_event E i req pl =
     [(''topicID'', opt_prop pl ''topicID''),
      (''eventType'', JStr ''verified''),
      (''timestamp'', JStr (nowIso i)),
      (''signerRole'', JStr ''pharmacist''),
      (''actorIdHash'',
         (case normalized (v_pharmacistNationalId req) of
            None \<Rightarrow> JNull
          | Some n \<Rightarrow> JStr (hashIdentifier E n (salt E) (opt_prop pl ''topicID'')))),
      (''dispenseCount'', js_or (opt_prop pl ''dispenseCount'') (JNum 0)),
      (''maxDispenses'', js_or (js_or (opt_prop pl ''maxDispenses'') (opt_prop pl ''md'')) (JNum 1)),
      (''fraudAlert'', JNull),
      (''drugIds'', js_or (opt_prop pl ''drugIds'') (JArr [])),
      (''prescriptionId'', js_or (opt_prop pl ''prescriptionId'') (opt_prop pl ''topicID''))]"

definition verify_reply :: "verify_req \<Rightarrow> bool \<Rightarrow> response" where
  "verify_reply req signatureValid =
     Reply 200 [(''success'', JBool True),
                (''valid'', JBool True),
                (''signatureValid'',
                   (case normalized (v_doctorNationalId req) of
                      None \<Rightarrow> JNull | Some d \<Rightarrow> JBool signatureValid)),
                (''fraudAlert'', JUndefined)]"

text \<open>The fraud check between the nonce guard and the 'verified' block compares the
  geotag of the payload with \<^verbatim>\<open>req.body.geo\<close>. The latter is undefined, so the check is
  skipped and \<^verbatim>\<open>fraudAlert\<close> stays null.\<close>

definition verify :: "env \<Rightarrow> io \<Rightarrow> server_state \<Rightarrow> verify_req \<Rightarrow> response \<times> server_state" where
  "verify E i s req =
     (case verify_prechecks E i s req of
        Inl r \<Rightarrow> (r, s)
      | Inr (pl, signatureValid) \<Rightarrow>
          (case verify_nonce s pl of
             Inl r \<Rightarrow> (r, s)
           | Inr s1 \<Rightarrow>
               (let s2 = verified_block E i s1 req pl signatureValid
                in (verify_reply req signatureValid,
                    logHCSEvent (verify_log_event E i req pl) s2))))"

section \<open>POST /api/issue-prescription: the issued event\<close>

text \<open>What the handler has at hand when it builds the event: the topic id, the validity
  end, the geotag already rendered (\<^verbatim>\<open>`${geo.lat},${geo.lng}`\<close> or null), the hashed patient
  id, the NFT serial as a string, the medications, \<^verbatim>\<open>formData.maxDispenses\<close> and the
  doctor's national id, which is optional.\<close>

record issue_input =
  in_topicID :: string
  in_validUntil :: string
  in_geoTag :: jsval
  in_hashedPatientId :: string
  in_nftSerial :: string
  in_medications :: "jsval list"
  in_maxDispenses :: jsval
  in_nationalId :: "string option"

definition issue_full_payload :: "io \<Rightarrow> issue_input \<Rightarrow> jsobj" where
  "issue_full_payload i x =
     [(''version'', JStr ''1''),
      (''alg'', JStr ''secp256k1+SHA-256''),
      (''eventType'', JStr ''issued''),
      (''topicID'', JStr (in_topicID x)),
      (''timestamp'', JStr (nowIso i)),
      (''validFrom'', JStr (nowIso i)),
      (''validUntil'', JStr (in_validUntil x)),
      (''geoTag'', in_geoTag x),
      (''hashedPatientId'', JStr (in_hashedPatientId x)),
      (''nftSerial'', JStr (in_nftSerial x)),
      (''drugIds'', JArr (map (\<lambda>m. js_or (opt_prop m ''code'') (JStr ''unknown'')) (in_medications x))),
      (''instructionsList'',
         JArr (map (\<lambda>m. js_or (opt_prop m ''instructions'') (JStr [])) (in_medications x))),
      (''signerRole'', JStr ''doctor''),
      (''maxDispenses'', js_or (in_maxDispenses x) (JNum 1)),
      (''dispenseCount'', JNum 0)]"

text \<open>\<^verbatim>\<open>toHash = { ...fullPayload, nonce }\<close>, the content hash over \<open>toHash\<close>, then
  \<^verbatim>\<open>completePayload = { ...toHash, contentHash }\<close>. Only after that, and only when a national id
  is given, \<^verbatim>\<open>completePayload.keyId\<close> is set, the payload is signed, and
  \<^verbatim>\<open>completePayload.signature\<close> is set.\<close>

definition issue_to_hash :: "io \<Rightarrow> issue_input \<Rightarrow> jsobj" where
  "issue_to_hash i x = obj_set (issue_full_payload i x) ''nonce'' (JStr (nonceHex i))"

definition issue_event :: "env \<Rightarrow> io \<Rightarrow> issue_input \<Rightarrow> js_error + jsobj" where
  "issue_event E i x =
     (let completePayload = with_content_hash E (issue_to_hash i x)
      in case in_nationalId x of
           None \<Rightarrow> Inr completePayload
         | Some nationalId \<Rightarrow>
             if nationalId = [] then Inr completePayload
             else
               (case ensureKeyPair E nationalId of
                  Inl e \<Rightarrow> Inl e
                | Inr publicKeyHex \<Rightarrow>
                    (let withKey = obj_set completePayload ''keyId'' (JStr (key_id E publicKeyHex))
                     in case signPayload E (JObj withKey) nationalId of
                          Inl e \<Rightarrow> Inl e
                        | Inr fullSignature \<Rightarrow>
                            Inr (obj_set withKey ''signature'' (JStr (''hex:'' @ fullSignature))))))"

text \<open>The invariant of the data model: the content hash of an event is the hash of the
  event without its \<open>signature\<close> and \<open>contentHash\<close> fields.\<close>

definition content_hash_ok :: "env \<Rightarrow> jsobj \<Rightarrow> bool" where
  "content_hash_ok E ev =
     (get_prop ev ''contentHash'' = JStr (event_hash E (obj_remove [''signature'', ''contentHash''] ev)))"

section \<open>The payload compressor\<close>

text \<open>Modelled from the spec: \<^verbatim>\<open>compressPayload\<close> and \<^verbatim>\<open>decompressPayload\<close> of
  \<^verbatim>\<open>utils/hcsPayloadCompressor\<close> are not in the sources at hand; the handlers only call
  them, with the event and the shared \<^verbatim>\<open>hashLookup\<close>. The spec (4.3) gives a static
  dictionary from long field names to short codes (eventType to e, topicID to t,
  dispenseCount to dc, and more), a value dictionary from long values to short tokens
  that is populated when a value occurs for the first time, and decompression as the
  inverse of compression. The static dictionary here holds the three pairs the spec
  names and the pairs under which the verify handler reads a field in both spellings.
  The length from which a value counts as long and the shape of the tokens are not
  given; they are parameters.\<close>

definition field_codes :: "(string \<times> string) list" where
  "field_codes =
     [(''eventType'', ''e''), (''topicID'', ''t''), (''dispenseCount'', ''dc''),
      (''maxDispenses'', ''md''), (''version'', ''v''), (''hashedPatientId'', ''h''),
      (''drugId'', ''d''), (''quantity'', ''q''), (''instructions'', ''i''),
      (''validUntil'', ''u''), (''nonce'', ''n''), (''geoTag'', ''g''),
      (''doctorIdHash'', ''p''), (''signature'', ''s'')]"

definition short_key :: "string \<Rightarrow> string" where
  "short_key k = (case map_of field_codes k of None \<Rightarrow> k | Some c \<Rightarrow> c)"


record codec =
  minLength :: nat
  token_of :: "nat \<Rightarrow> string"

text \<open>The value dictionary (\<^verbatim>\<open>hashLookup\<close>): tokens with the values they stand for, in the
  order in which they were added.\<close>

type_synonym value_dict = "(string \<times> string) list"

definition token_for :: "value_dict \<Rightarrow> string \<Rightarrow> string option" where
  "token_for L s = map_of (map (\<lambda>(t, v). (v, t)) L) s"

text \<open>The long string values of a payload, in the order in which they occur.\<close>

fun long_values :: "codec \<Rightarrow> jsval \<Rightarrow> string list" where
  "long_values C (JStr s) = (if minLength C \<le> length s then [s] else [])"
| "long_values C (JArr xs) = concat (map (long_values C) xs)"
| "long_values C (JObj kvs) = concat (map (\<lambda>(k, v). long_values C v) kvs)"
| "long_values C v = []"

text \<open>A value that has no token yet gets the next one.\<close>

definition add_value :: "codec \<Rightarrow> value_dict \<Rightarrow> string \<Rightarrow> value_dict" where
  "add_value C L s = (if token_for L s = None then L @ [(token_of C (length L), s)] else L)"

definition populate :: "codec \<Rightarrow> value_dict \<Rightarrow> string list \<Rightarrow> value_dict" where
  "populate C L ss = foldl (add_value C) L ss"

fun encode :: "value_dict \<Rightarrow> jsval \<Rightarrow> jsval" where
  "encode L (JStr s) = (case token_for L s of None \<Rightarrow> JStr s | Some t \<Rightarrow> JStr t)"
| "encode L (JArr xs) = JArr (map (encode L) xs)"
| "encode L (JObj kvs) = JObj (map (\<lambda>(k, v). (short_key k, encode L v)) kvs)"
| "encode L v = v"


text \<open>\<^verbatim>\<open>compressPayload(payload, hashLookup)\<close> returns the compact form and leaves the new
  entries in \<^verbatim>\<open>hashLookup\<close>; \<^verbatim>\<open>decompressPayload(payload, hashLookup)\<close> reads it.\<close>

definition compress_payload :: "codec \<Rightarrow> jsval \<Rightarrow> value_dict \<Rightarrow> jsval \<times> value_dict" where
  "compress_payload C x L = (let L' = populate C L (long_values C x) in (encode L' x, L'))"








section \<open>Sample inputs\<close>

text \<open>A concrete environment, state and requests on which the theorems below are
  instantiated. The stand-in hash is the identity, so two hashes are equal only when the
  hashed texts are.\<close>

definition sample_env :: env where
  "sample_env =
     \<lparr>sha256hex = (\<lambda>bytes. bytes),
      bufferFromHex = (\<lambda>hex. hex),
      ensureKeyPair = (\<lambda>n. Inr (''04'' @ n)),
      signPayload = (\<lambda>p n. Inr (''5167'' @ n)),
      verifySignature = (\<lambda>p sg n. sg = JStr (''hex:5167'' @ n)),
      compressPayload = (\<lambda>p. Inr p),
      decompressPayload = (\<lambda>p. Inr p),
      hashIdentifier = (\<lambda>v sl ctx. v @ sl @ js_to_string ctx),
      newDate = (\<lambda>v. None),
      dateParse = (\<lambda>v. None),
      toISOString = (\<lambda>t. show_int t),
      cndpSalt = None,
      lockTimeoutMs = 30000\<rparr>"

definition sample_topic :: string where
  "sample_topic = ''0.0.1001''"

definition sample_entry :: store_entry where
  "sample_entry =
     \<lparr>prescription = JObj [(''id'', JStr ''RX-20250101-001''), (''dispenseCount'', JNum 0),
                           (''maxDispenses'', JNum 2)],
      payload = JObj [(''version'', JStr ''1''), (''eventType'', JStr ''issued''),
                      (''topicID'', JStr ''0.0.1001''), (''maxDispenses'', JNum 2),
                      (''dispenseCount'', JNum 0), (''nonce'', JStr ''00112233aabbccdd'')]\<rparr>"

definition empty_state :: server_state where
  "empty_state =
     \<lparr>inMemoryStore = Map.empty, lastEventHashPerTopic = Map.empty,
      lastEventTypePerTopic = Map.empty, usedNonces = {}, prescriptionIndex = Map.empty,
      prescriptionToTopic = Map.empty, sensitiveData = Map.empty, topicStatus = Map.empty,
      messageQueue = [], hcsCalls = [], hcsEvents = [], dispenseLocks = Map.empty\<rparr>"

definition sample_state :: server_state where
  "sample_state =
     empty_state
       \<lparr>inMemoryStore := [sample_topic \<mapsto> sample_entry],
        lastEventHashPerTopic := [sample_topic \<mapsto> ''sha256:1111''],
        lastEventTypePerTopic := [sample_topic \<mapsto> ''issued''],
        prescriptionToTopic := [''RX-20250101-001'' \<mapsto> sample_topic]\<rparr>"

definition sample_io :: io where
  "sample_io = \<lparr>now = 1000, nowIso = ''2025-01-01T10:00:00.000Z'', nonceHex = ''a1b2c3d4e5f60718'',
                hcsOk = True\<rparr>"

definition sample_dispense_req :: dispense_req where
  "sample_dispense_req =
     \<lparr>topicID = sample_topic, pharmacistNationalId = ''PH778'', items = JUndefined,
      totals = JUndefined, paymentMethod = None, prevEventHash = None\<rparr>"



definition sample_qr_payload :: jsval where
  "sample_qr_payload =
     JObj [(''v'', JStr ''1.0''), (''t'', JStr ''0.0.1001''), (''h'', JStr ''9f2c''),
           (''d'', JStr ''N02BE01''), (''q'', JStr ''500mg''), (''i'', JStr ''3x/day, 7 days''),
           (''u'', JStr ''2025-03-01T10:00:00.000Z''), (''n'', JStr ''00112233aabbccdd''),
           (''g'', JStr ''MA-CAS''), (''p'', JStr ''77ab''), (''dc'', JNum 0), (''md'', JNum 2),
           (''s'', JStr ''hex:0000'')]"

text \<open>A scanned QR payload whose signature is not the doctor's.\<close>

definition sample_verify_req :: verify_req where
  "sample_verify_req =
     \<lparr>v_payload = sample_qr_payload, v_topicID = Some [], v_doctorNationalId = Some ''DR100'',
      v_pharmacistNationalId = Some ''PH778'', v_pharmacyId = None\<rparr>"




definition sample_issue_input :: issue_input where
  "sample_issue_input =
     \<lparr>in_topicID = ''0.0.1001'', in_validUntil = ''2025-03-01T10:00:00.000Z'',
      in_geoTag = JStr ''33.57,-7.59'', in_hashedPatientId = ''9f2c'', in_nftSerial = ''1'',
      in_medications = [JObj [(''name'', JStr ''Paracetamol''), (''code'', JStr ''N02BE01''),
                              (''instructions'', JStr ''after meals'')]],
      in_maxDispenses = JNum 2, in_nationalId = Some ''DR100''\<rparr>"

definition sample_codec :: codec where
  "sample_codec = \<lparr>minLength = 16, token_of = (\<lambda>n. CHR ''#'' # show_nat n)\<rparr>"

text \<open>A dispensed event without items, totals and payment method, and an issued event.\<close>

definition sample_dispensed_event :: jsval where
  "sample_dispensed_event =
     JObj [(''version'', JStr ''1''), (''alg'', JStr ''secp256k1+SHA-256''),
           (''eventType'', JStr ''dispensed''), (''topicID'', JStr ''0.0.1001''),
           (''timestamp'', JStr ''2025-01-01T10:00:00.000Z''), (''signerRole'', JStr ''pharmacist''),
           (''actorIdHash'', JStr ''sha256:PH778atlascare-default-salt''),
           (''items'', JUndefined), (''totals'', JUndefined), (''paymentMethod'', JUndefined),
           (''prevEventHash'', JStr ''sha256:1111''), (''dispenseCount'', JNum 1),
           (''maxDispenses'', JNum 2), (''keyId'', JStr ''fp:04PH778''),
           (''nonce'', JStr ''a1b2c3d4e5f60718''), (''contentHash'', JStr ''sha256:77aa''),
           (''signature'', JStr ''hex:5167PH778'')]"


section \<open>Properties\<close>

subsection \<open>JavaScript values\<close>

lemma show_int_examples:
  "show_int 0 = ''0''" "show_int 2 = ''2''" "show_int 12 = ''12''" "show_int (- 7) = ''-7''"
  by (simp_all add: show_int_def show_nat.simps digit_char_def)

lemma json_value_example:
  "json_value (JObj [(''a'', JNum 1), (''b'', JUndefined), (''c'', JArr [JStr ''x'', JUndefined])])
     = ''{'' @ [CHR 0x22] @ ''a'' @ [CHR 0x22] @ '':1,'' @ [CHR 0x22] @ ''c'' @ [CHR 0x22] @ '':[''
        @ [CHR 0x22] @ ''x'' @ [CHR 0x22] @ '',null]}''"
  by (simp add: show_int_def show_nat.simps digit_char_def intercalate_def json_quote_def
      json_escape_char_def)


lemma js_or_num [simp]: "js_or (JNum c) d = (if c = 0 then d else JNum c)"
  by (simp add: js_or_def)

lemma js_ge_num [simp]: "js_ge (JNum a) (JNum b) = (b \<le> a)"
  by (simp add: js_ge_def to_primitive_def prim_to_number_def)

lemma js_add_num [simp]: "js_add (JNum a) (JNum b) = JNum (a + b)"
  by (simp add: js_add_def to_primitive_def prim_to_number_def is_str_def)

lemma get_prop_obj_set [simp]:
  "get_prop (obj_set kvs k v) k' = (if k' = k then v else get_prop kvs k')"
  by (induction kvs) (auto simp: get_prop_def)

subsection \<open>The lock is given back\<close>

lemma commit_tracking_locks:
  "commit_tracking i topic n pd s = Inr s' \<Longrightarrow> dispenseLocks s' = dispenseLocks s"
  by (auto simp: commit_tracking_def split: option.splits sum.splits)

lemma commit_index_locks: "dispenseLocks (commit_index i topic n s) = dispenseLocks s"
  by (simp add: commit_index_def split: option.splits)

lemma dispense_commit_locks:
  "dispenseLocks (dispense_commit E i s0 req pl s) = dispenseLocks s"
  by (auto simp: dispense_commit_def Let_def logHCSEvent_def setTopicStatus_def commit_head_def
      commit_index_locks dest!: commit_tracking_locks split: sum.splits)

lemma dispense_locked_locks:
  "dispenseLocks (snd (dispense_locked E i s req)) = (dispenseLocks s)((topicID req) := None)"
  by (simp add: dispense_locked_def Let_def dispense_commit_locks releaseDispenseLock_def
      putSensitiveData_def queueMessage_def submitPrescriptionMessage_def
      split: sum.splits)

lemma acquire_free:
  "dispenseLocks s topic = None \<Longrightarrow>
   acquireDispenseLock E t topic n s =
     (True, s\<lparr>dispenseLocks := (dispenseLocks s)(topic \<mapsto> \<lparr>owner = n, acquiredAt = t\<rparr>)\<rparr>)"
  by (simp add: acquireDispenseLock_def held_by_other_def)

lemma sample_env_total: "collaborators_total sample_env"
  by (simp add: collaborators_total_def sample_env_def)

text \<open>
  C10. Once the dispense handler has acquired the lock of the channel, the lock is free
  again when the handler has replied, whichever way it ends: the fully-dispensed
  rejection, the successful dispense, or an exception of a collaborator caught by the
  outer \<^verbatim>\<open>catch\<close>. The statement holds for every environment, so also for key, signature
  and compression helpers that throw.
\<close>

theorem dispense_releases_lock:
  "fst (acquireDispenseLock E (now i) (topicID req) (pharmacistNationalId req) s)
   \<Longrightarrow> dispenseLocks (snd (dispense E i s req)) (topicID req) = None"
  by (simp add: dispense_def dispense_locked_locks acquireDispenseLock_def
      split: if_splits prod.splits)

theorem dispense_releases_lock_witness:
  "fst (acquireDispenseLock sample_env (now sample_io) (topicID sample_dispense_req)
          (pharmacistNationalId sample_dispense_req) sample_state) \<and>
   dispenseLocks (snd (dispense sample_env sample_io sample_state sample_dispense_req))
     sample_topic = None"
proof -
  have free: "dispenseLocks sample_state (topicID sample_dispense_req) = None"
    by (simp add: sample_state_def empty_state_def)
  have acq: "fst (acquireDispenseLock sample_env (now sample_io) (topicID sample_dispense_req)
          (pharmacistNationalId sample_dispense_req) sample_state)"
    by (simp add: acquire_free [OF free])
  have t: "topicID sample_dispense_req = sample_topic"
    by (simp add: sample_dispense_req_def)
  show ?thesis
    using acq dispense_releases_lock [OF acq] by (simp add: t)
qed

subsection \<open>A lock held by somebody else\<close>

text \<open>
  C2. When the lock of the channel is held by a different owner and has not expired, the
  dispense handler replies 409 with error CONCURRENT_DISPENSE_ATTEMPT in the one step
  that tests the lock, and the state after the request is the state before it: the
  stored dispense count, the last event hash and type and the status are what they
  were.
\<close>

theorem dispense_lock_conflict:
  "held_by_other E (now i) s (topicID req) (pharmacistNationalId req)
   \<Longrightarrow> dispense E i s req = (conflict_reply, s)"
  by (simp add: dispense_def acquireDispenseLock_def conflict_reply_def)

theorem dispense_lock_conflict_witness:
  "held_by_other sample_env (now sample_io)
     (sample_state\<lparr>dispenseLocks := [sample_topic \<mapsto> \<lparr>owner = ''PH001'', acquiredAt = 900\<rparr>]\<rparr>)
     (topicID sample_dispense_req) (pharmacistNationalId sample_dispense_req) \<and>
   dispense sample_env sample_io
     (sample_state\<lparr>dispenseLocks := [sample_topic \<mapsto> \<lparr>owner = ''PH001'', acquiredAt = 900\<rparr>]\<rparr>)
     sample_dispense_req =
   (conflict_reply,
    sample_state\<lparr>dispenseLocks := [sample_topic \<mapsto> \<lparr>owner = ''PH001'', acquiredAt = 900\<rparr>]\<rparr>)"
proof -
  let ?s = "sample_state\<lparr>dispenseLocks := [sample_topic \<mapsto> \<lparr>owner = ''PH001'', acquiredAt = 900\<rparr>]\<rparr>"
  have held: "held_by_other sample_env (now sample_io) ?s
     (topicID sample_dispense_req) (pharmacistNationalId sample_dispense_req)"
    by (simp add: held_by_other_def lock_expired_def sample_env_def sample_io_def
        sample_dispense_req_def)
  show ?thesis using held dispense_lock_conflict [OF held] by simp
qed

subsection \<open>Counting dispenses\<close>

lemma sign_event_total:
  "collaborators_total E \<Longrightarrow> \<exists>pl. sign_event E i base n = Inr pl"
  by (auto simp: collaborators_total_def sign_event_def Let_def split: sum.splits)
    (metis sum.disc(1))+

lemma current_of_stored:
  "storedDispenseCount s topic = JNum c \<Longrightarrow> 0 \<le> c \<Longrightarrow> currentDispenseCount s topic = JNum c"
  by (auto simp: storedDispenseCount_def currentDispenseCount_def)

lemma max_of_stored:
  "storedMaxDispenses s topic = JNum N \<Longrightarrow> 1 \<le> N \<Longrightarrow> maxDispenses s topic = JNum N"
  by (auto simp: storedMaxDispenses_def maxDispenses_def)

lemma stored_numD:
  assumes "entry_payload_prop (inMemoryStore s topic) k = JNum c"
  obtains e kvs where "inMemoryStore s topic = Some e" "payload e = JObj kvs" "get_prop kvs k = JNum c"
  using assms
  by (auto simp: entry_payload_prop_def opt_prop_def split: option.splits jsval.splits)

lemma commit_store:
  assumes "inMemoryStore s0 (topicID req) = Some e" "payload e = JObj kvs"
  shows "inMemoryStore (dispense_commit E i s0 req pl s) =
         (inMemoryStore s)(topicID req \<mapsto>
            e\<lparr>payload := JObj (obj_set (obj_set kvs ''dispenseCount''
                 (js_add (currentDispenseCount s0 (topicID req)) (JNum 1)))
                 ''lastDispenseDate'' (JStr (nowIso i)))\<rparr>)"
  using assms
  by (simp add: dispense_commit_def Let_def commit_tracking_def set_dispense_tracking_def
      commit_head_def commit_index_def logHCSEvent_def setTopicStatus_def split: option.splits)

lemma dispense_locked_accept:
  assumes tot: "collaborators_total E"
    and sc: "storedDispenseCount s (topicID req) = JNum c"
    and sm: "storedMaxDispenses s (topicID req) = JNum N"
    and c: "0 \<le> c" "c < N"
  shows "fst (dispense_locked E i s req) = Reply 200 [(''success'', JBool True)]"
    and "storedDispenseCount (snd (dispense_locked E i s req)) (topicID req) = JNum (c + 1)"
    and "storedMaxDispenses (snd (dispense_locked E i s req)) (topicID req) = JNum N"
proof -
  from sc obtain e kvs where e: "inMemoryStore s (topicID req) = Some e" "payload e = JObj kvs"
    and kc: "get_prop kvs ''dispenseCount'' = JNum c"
    unfolding storedDispenseCount_def by (rule stored_numD)
  from sm e have km: "get_prop kvs ''maxDispenses'' = JNum N"
    by (simp add: storedMaxDispenses_def entry_payload_prop_def opt_prop_def)
  have cur: "currentDispenseCount s (topicID req) = JNum c"
    using sc c by (simp add: current_of_stored)
  have mx: "maxDispenses s (topicID req) = JNum N"
    using sm c by (simp add: max_of_stored)
  from tot obtain pl where pl: "dispense_event E i s req = Inr pl"
    unfolding dispense_event_def using sign_event_total by blast
  from tot obtain cp where cp: "compressPayload E (JObj pl) = Inr cp"
    by (metis collaborators_total_def sum.collapse(2))
  let ?s3 = "submitPrescriptionMessage [JStr (topicID req), cp]
               (queueMessage (JStr (topicID req)) [(''eventType'', JStr ''dispensed''), (''payload'', cp)]
                 (putSensitiveData (topicID req)
                    (obj_set (obj_set (obj_set (getSensitiveData s (topicID req))
                       ''dispensedItems'' (items req)) ''dispensedTotals'' (totals req))
                       ''paymentMethod'' (opt_str (paymentMethod req))) s))"
  have res: "dispense_locked E i s req =
        (Reply 200 [(''success'', JBool True)],
         releaseDispenseLock (topicID req) (dispense_commit E i s req pl ?s3))"
    using c by (simp add: dispense_locked_def Let_def cur mx pl cp)
  show "fst (dispense_locked E i s req) = Reply 200 [(''success'', JBool True)]"
    by (simp add: res)
  have st: "inMemoryStore (snd (dispense_locked E i s req)) (topicID req) =
        Some (e\<lparr>payload := JObj (obj_set (obj_set kvs ''dispenseCount'' (JNum (c + 1)))
                 ''lastDispenseDate'' (JStr (nowIso i)))\<rparr>)"
    by (simp add: res releaseDispenseLock_def commit_store [OF e] cur)
  show "storedDispenseCount (snd (dispense_locked E i s req)) (topicID req) = JNum (c + 1)"
    by (simp add: storedDispenseCount_def st entry_payload_prop_def opt_prop_def)
  show "storedMaxDispenses (snd (dispense_locked E i s req)) (topicID req) = JNum N"
    by (simp add: storedMaxDispenses_def st entry_payload_prop_def opt_prop_def km)
qed

lemma dispense_locked_reject:
  assumes sc: "storedDispenseCount s (topicID req) = JNum c"
    and sm: "storedMaxDispenses s (topicID req) = JNum N"
    and c: "1 \<le> N" "N \<le> c"
  shows "dispense_locked E i s req =
          (fully_dispensed_reply c N, releaseDispenseLock (topicID req) s)"
proof -
  have cur: "currentDispenseCount s (topicID req) = JNum c"
    using sc c by (simp add: current_of_stored)
  have mx: "maxDispenses s (topicID req) = JNum N"
    using sm c by (simp add: max_of_stored)
  show ?thesis
    using c by (simp add: dispense_locked_def Let_def cur mx fully_dispensed_message_def
        fully_dispensed_reply_def)
qed

lemma stored_lock_update [simp]:
  "storedDispenseCount (s\<lparr>dispenseLocks := l\<rparr>) topic = storedDispenseCount s topic"
  "storedMaxDispenses (s\<lparr>dispenseLocks := l\<rparr>) topic = storedMaxDispenses s topic"
  by (simp_all add: storedDispenseCount_def storedMaxDispenses_def)

lemma dispense_step_accept:
  assumes tot: "collaborators_total E"
    and inv: "channel_at s (topicID req) c N"
    and c: "0 \<le> c" "c < N"
  shows "fst (dispense E i s req) = ok_reply"
    and "channel_at (snd (dispense E i s req)) (topicID req) (c + 1) N"
proof -
  let ?s' = "s\<lparr>dispenseLocks := (dispenseLocks s)(topicID req \<mapsto>
                 \<lparr>owner = pharmacistNationalId req, acquiredAt = now i\<rparr>)\<rparr>"
  have d: "dispense E i s req = dispense_locked E i ?s' req"
    using inv by (simp add: dispense_def acquire_free channel_at_def)
  have sc: "storedDispenseCount ?s' (topicID req) = JNum c"
    and sm: "storedMaxDispenses ?s' (topicID req) = JNum N"
    using inv by (simp_all add: channel_at_def)
  show "fst (dispense E i s req) = ok_reply"
    unfolding d ok_reply_def by (rule dispense_locked_accept(1) [OF tot sc sm c])
  show "channel_at (snd (dispense E i s req)) (topicID req) (c + 1) N"
    unfolding d channel_at_def
    using dispense_locked_accept(2,3) [OF tot sc sm c, of i]
    by (simp add: dispense_locked_locks)
qed

lemma dispense_step_reject:
  assumes inv: "channel_at s (topicID req) c N"
    and c: "1 \<le> N" "N \<le> c"
  shows "dispense E i s req = (fully_dispensed_reply c N, s)"
proof -
  let ?s' = "s\<lparr>dispenseLocks := (dispenseLocks s)(topicID req \<mapsto>
                 \<lparr>owner = pharmacistNationalId req, acquiredAt = now i\<rparr>)\<rparr>"
  have d: "dispense E i s req = dispense_locked E i ?s' req"
    using inv by (simp add: dispense_def acquire_free channel_at_def)
  have sc: "storedDispenseCount ?s' (topicID req) = JNum c"
    and sm: "storedMaxDispenses ?s' (topicID req) = JNum N"
    using inv by (simp_all add: channel_at_def)
  have "(dispenseLocks s)(topicID req := None) = dispenseLocks s"
    using inv by (simp add: channel_at_def fun_upd_idem)
  then have "releaseDispenseLock (topicID req) ?s' = s"
    by (simp add: releaseDispenseLock_def)
  then show ?thesis
    unfolding d by (simp add: dispense_locked_reject [OF sc sm c])
qed

lemma dispense_all_channel:
  assumes tot: "collaborators_total E" and N: "1 \<le> N"
  shows "channel_at s topic c N \<Longrightarrow> 0 \<le> c \<Longrightarrow> c \<le> N \<Longrightarrow>
         \<forall>r \<in> set rs. topicID (snd r) = topic \<Longrightarrow>
         channel_at (dispense_all E s rs) topic (min N (c + int (length rs))) N"
proof (induction rs arbitrary: s c)
  case Nil
  then show ?case by (simp add: min_absorb2)
next
  case (Cons r rs)
  obtain i req where r: "r = (i, req)" by (cases r)
  from Cons.prems r have t: "topicID req = topic" by simp
  show ?case
  proof (cases "c < N")
    case True
    have inv': "channel_at (snd (dispense E i s req)) topic (c + 1) N"
      using dispense_step_accept(2) [OF tot, of s req c N i] Cons.prems True t by simp
    have "channel_at (dispense_all E (snd (dispense E i s req)) rs) topic
            (min N (c + 1 + int (length rs))) N"
      using Cons.IH [OF inv'] Cons.prems True by simp
    then show ?thesis by (simp add: r ac_simps)
  next
    case False
    with Cons.prems have cN: "c = N" by simp
    have "dispense E i s req = (fully_dispensed_reply c N, s)"
      using dispense_step_reject [of s req c N E i] Cons.prems N cN t by simp
    then have "dispense_all E s (r # rs) = dispense_all E s rs" by (simp add: r)
    moreover have "channel_at (dispense_all E s rs) topic (min N (c + int (length rs))) N"
      using Cons.IH [OF Cons.prems(1)] Cons.prems by simp
    ultimately show ?thesis using cN by (simp add: min_def)
  qed
qed

text \<open>Whatever the collaborators do, a dispense request leaves the stored count where it
  was or adds 1 to it, and never takes it beyond the limit.\<close>

lemma dispense_locked_store:
  assumes sc: "storedDispenseCount s (topicID req) = JNum c"
    and sm: "storedMaxDispenses s (topicID req) = JNum N"
    and c: "0 \<le> c" "c \<le> N" "1 \<le> N"
  shows "storedMaxDispenses (snd (dispense_locked E i s req)) (topicID req) = JNum N \<and>
         (storedDispenseCount (snd (dispense_locked E i s req)) (topicID req) = JNum c \<or>
          c < N \<and> storedDispenseCount (snd (dispense_locked E i s req)) (topicID req) = JNum (c + 1))"
proof -
  from sc obtain e kvs where e: "inMemoryStore s (topicID req) = Some e" "payload e = JObj kvs"
    and kc: "get_prop kvs ''dispenseCount'' = JNum c"
    unfolding storedDispenseCount_def by (rule stored_numD)
  from sm e have km: "get_prop kvs ''maxDispenses'' = JNum N"
    by (simp add: storedMaxDispenses_def entry_payload_prop_def opt_prop_def)
  have cur: "currentDispenseCount s (topicID req) = JNum c"
    using sc c by (simp add: current_of_stored)
  have mx: "maxDispenses s (topicID req) = JNum N"
    using sm c by (simp add: max_of_stored)
  have same: "\<And>s'. inMemoryStore s' = inMemoryStore s \<Longrightarrow>
      storedMaxDispenses (releaseDispenseLock (topicID req) s') (topicID req) = JNum N \<and>
      storedDispenseCount (releaseDispenseLock (topicID req) s') (topicID req) = JNum c"
    using sc sm by (simp add: releaseDispenseLock_def storedDispenseCount_def storedMaxDispenses_def)
  show ?thesis
  proof (cases "c < N")
    case False
    then show ?thesis
      using same [of s] by (simp add: dispense_locked_def Let_def cur mx)
  next
    case True
    show ?thesis
    proof (cases "dispense_event E i s req")
      case (Inl err)
      then show ?thesis using True same [of s] by (simp add: dispense_locked_def Let_def cur mx)
    next
      case (Inr pl)
      show ?thesis
      proof (cases "compressPayload E (JObj pl)")
        case (Inl err)
        then show ?thesis
          using True Inr same by (simp add: dispense_locked_def Let_def cur mx putSensitiveData_def)
      next
        case cp: (Inr cpl)
        have st: "inMemoryStore (snd (dispense_locked E i s req)) (topicID req) =
            Some (e\<lparr>payload := JObj (obj_set (obj_set kvs ''dispenseCount'' (JNum (c + 1)))
                 ''lastDispenseDate'' (JStr (nowIso i)))\<rparr>)"
          using True
          by (simp add: dispense_locked_def Let_def cur mx Inr cp releaseDispenseLock_def
              commit_store [OF e] putSensitiveData_def queueMessage_def
              submitPrescriptionMessage_def)
        show ?thesis
          using True
          by (simp add: storedDispenseCount_def storedMaxDispenses_def st entry_payload_prop_def
              opt_prop_def km)
      qed
    qed
  qed
qed

lemma dispense_keeps_bound:
  assumes inv: "channel_at s (topicID req) c N" and c: "0 \<le> c" "c \<le> N" "1 \<le> N"
  shows "\<exists>c'. channel_at (snd (dispense E i s req)) (topicID req) c' N \<and> c \<le> c' \<and> c' \<le> N \<and> c' \<le> c + 1"
proof -
  let ?s' = "s\<lparr>dispenseLocks := (dispenseLocks s)(topicID req \<mapsto>
                 \<lparr>owner = pharmacistNationalId req, acquiredAt = now i\<rparr>)\<rparr>"
  have d: "dispense E i s req = dispense_locked E i ?s' req"
    using inv by (simp add: dispense_def acquire_free channel_at_def)
  have sc: "storedDispenseCount ?s' (topicID req) = JNum c"
    and sm: "storedMaxDispenses ?s' (topicID req) = JNum N"
    using inv by (simp_all add: channel_at_def)
  have free: "dispenseLocks (snd (dispense E i s req)) (topicID req) = None"
    by (simp add: d dispense_locked_locks)
  from dispense_locked_store [OF sc sm c, of E i] show ?thesis
    unfolding d [symmetric] using free c by (auto simp: channel_at_def)
qed

lemma dispense_all_bound:
  assumes N: "1 \<le> N"
  shows "channel_at s topic c N \<Longrightarrow> 0 \<le> c \<Longrightarrow> c \<le> N \<Longrightarrow>
         \<forall>r \<in> set rs. topicID (snd r) = topic \<Longrightarrow>
         \<exists>c'. channel_at (dispense_all E s rs) topic c' N \<and> c \<le> c' \<and> c' \<le> N"
proof (induction rs arbitrary: s c)
  case Nil
  then show ?case by auto
next
  case (Cons r rs)
  obtain i req where r: "r = (i, req)" by (cases r)
  from Cons.prems r have t: "topicID req = topic" by simp
  from dispense_keeps_bound [of s req c N E i] Cons.prems N t
  obtain c1 where c1: "channel_at (snd (dispense E i s req)) topic c1 N" "c \<le> c1" "c1 \<le> N"
    by auto
  from Cons.IH [OF c1(1)] c1 Cons.prems
  obtain c' where "channel_at (dispense_all E (snd (dispense E i s req)) rs) topic c' N"
    "c1 \<le> c'" "c' \<le> N" by auto
  with c1 show ?case by (auto simp: r)
qed

text \<open>
  C1. A channel is stored with \<open>maxDispenses = N\<close>, \<open>N \<ge> 1\<close> as the issue route admits it,
  with \<open>dispenseCount = 0\<close> and its lock free; the key, signature and compression helpers
  do not throw. Dispense requests for the channel are served one after the other. Then
  for the request at position \<open>k\<close> (counted from 0): the stored count before it is
  \<open>min N k\<close>; it succeeds when \<open>k < N\<close> and is rejected with status 400 and the message
  "Prescription fully dispensed (N/N)" otherwise; and the stored count after it is
  \<open>min N (k + 1)\<close>. So each success adds exactly 1, the first \<open>N\<close> requests succeed, request
  \<open>N + 1\<close> and every later one is rejected, and the stored count never exceeds \<open>N\<close>.
  The bound does not depend on the helpers: after any sequence of requests for the
  channel, served in any environment, the stored count is a number between 0 and \<open>N\<close>.
\<close>

theorem dispense_count_bounded:
  assumes tot: "collaborators_total E"
    and N: "1 \<le> N"
    and start: "storedDispenseCount s topic = JNum 0" "storedMaxDispenses s topic = JNum N"
    and free: "dispenseLocks s topic = None"
    and reqs: "\<forall>r \<in> set rs. topicID (snd r) = topic"
    and k: "k < length rs"
    and others: "\<forall>r \<in> set rs'. topicID (snd r) = topic"
  shows "storedDispenseCount (dispense_all E s (take k rs)) topic = JNum (min N (int k)) \<and>
         fst (dispense E (fst (rs ! k)) (dispense_all E s (take k rs)) (snd (rs ! k))) =
           (if int k < N then ok_reply else fully_dispensed_reply N N) \<and>
         storedDispenseCount
           (snd (dispense E (fst (rs ! k)) (dispense_all E s (take k rs)) (snd (rs ! k)))) topic
           = JNum (min N (int k + 1)) \<and>
         (\<exists>c. storedDispenseCount (dispense_all E' s rs') topic = JNum c \<and> 0 \<le> c \<and> c \<le> N)"
proof -
  have inv0: "channel_at s topic 0 N" using start free by (simp add: channel_at_def)
  have bound: "\<exists>c. storedDispenseCount (dispense_all E' s rs') topic = JNum c \<and> 0 \<le> c \<and> c \<le> N"
    using dispense_all_bound [OF N inv0 _ _ others, of E'] N by (auto simp: channel_at_def)
  have tk: "\<forall>r \<in> set (take k rs). topicID (snd r) = topic"
    using reqs by (meson in_set_takeD)
  have inv: "channel_at (dispense_all E s (take k rs)) topic (min N (int k)) N"
    using dispense_all_channel [OF tot N inv0 _ _ tk] N k by (simp add: min_def)
  have t: "topicID (snd (rs ! k)) = topic" using reqs k by simp
  let ?s = "dispense_all E s (take k rs)"
  have first: "storedDispenseCount ?s topic = JNum (min N (int k))"
    using inv by (simp add: channel_at_def)
  show ?thesis
  proof (cases "int k < N")
    case True
    then have m: "min N (int k) = int k" by simp
    from inv m t have inv': "channel_at ?s (topicID (snd (rs ! k))) (int k) N" by simp
    have "fst (dispense E (fst (rs ! k)) ?s (snd (rs ! k))) = ok_reply"
      by (rule dispense_step_accept(1) [OF tot inv']) (use True in simp_all)
    moreover have "channel_at (snd (dispense E (fst (rs ! k)) ?s (snd (rs ! k))))
                     (topicID (snd (rs ! k))) (int k + 1) N"
      by (rule dispense_step_accept(2) [OF tot inv']) (use True in simp_all)
    ultimately show ?thesis using True first t bound by (simp add: channel_at_def min_def)
  next
    case False
    then have m: "min N (int k) = N" by simp
    from inv m t have inv': "channel_at ?s (topicID (snd (rs ! k))) N N" by simp
    have "dispense E (fst (rs ! k)) ?s (snd (rs ! k)) = (fully_dispensed_reply N N, ?s)"
      by (rule dispense_step_reject [OF inv']) (use N in simp_all)
    then show ?thesis using False first bound by (simp add: min_def)
  qed
qed

text \<open>The scenario of the spec: a channel with \<open>maxDispenses = 2\<close>; the third request is
  rejected with "fully dispensed (2/2)".\<close>

theorem dispense_count_bounded_witness:
  "collaborators_total sample_env \<and> (1::int) \<le> 2 \<and>
   storedDispenseCount sample_state sample_topic = JNum 0 \<and>
   storedMaxDispenses sample_state sample_topic = JNum 2 \<and>
   dispenseLocks sample_state sample_topic = None \<and>
   storedDispenseCount
     (dispense_all sample_env sample_state
        [(sample_io, sample_dispense_req), (sample_io, sample_dispense_req)]) sample_topic = JNum 2 \<and>
   fst (dispense sample_env sample_io
     (dispense_all sample_env sample_state
        [(sample_io, sample_dispense_req), (sample_io, sample_dispense_req)])
     sample_dispense_req) =
   Reply 400 [(''success'', JBool False),
              (''message'', JStr ''Prescription fully dispensed (2/2)'')]"
proof -
  let ?rs = "[(sample_io, sample_dispense_req), (sample_io, sample_dispense_req),
              (sample_io, sample_dispense_req)]"
  have c0: "storedDispenseCount sample_state sample_topic = JNum 0"
    by (simp add: storedDispenseCount_def sample_state_def empty_state_def sample_entry_def
        entry_payload_prop_def opt_prop_def get_prop_def)
  have m0: "storedMaxDispenses sample_state sample_topic = JNum 2"
    by (simp add: storedMaxDispenses_def sample_state_def empty_state_def sample_entry_def
        entry_payload_prop_def opt_prop_def get_prop_def)
  have free: "dispenseLocks sample_state sample_topic = None"
    by (simp add: sample_state_def empty_state_def)
  have reqs: "\<forall>r \<in> set ?rs. topicID (snd r) = sample_topic"
    by (simp add: sample_dispense_req_def)
  have k: "(2::nat) < length ?rs" by simp
  have N: "(1::int) \<le> 2" by simp
  show ?thesis
    using dispense_count_bounded [OF sample_env_total N c0 m0 free reqs k reqs]
    by (simp add: sample_env_total c0 m0 free fully_dispensed_reply_def show_int_examples)
qed

subsection \<open>A topic the store has no record of\<close>

lemma dispense_event_lock_update [simp]:
  "dispense_event E i (s\<lparr>dispenseLocks := l\<rparr>) req = dispense_event E i s req"
  by (simp add: dispense_event_def dispense_base_def chainPrev_def currentDispenseCount_def
      maxDispenses_def)




subsection \<open>The previous-event hash\<close>













subsection \<open>Verification\<close>

lemma ok_not_in_module: "''ok'' \<notin> set module_names"
  by (simp add: module_names_def)

lemma ok_not_in_scope: "''ok'' \<notin> fst ` set (verified_block_scope req pl sv prev)"
  using ok_not_in_module
  by (simp add: verified_block_scope_def module_scope_def image_Un image_image)

lemma ok_unbound:
  "resolve_identifier (verified_block_scope req pl sv prev) ''ok'' = Inl (ReferenceError ''ok'')"
  using ok_not_in_scope [of req pl sv prev]
  by (simp add: resolve_identifier_def map_of_eq_None_iff [THEN iffD2])

lemma verified_try_aborts: "isl (verified_try E i s req pl sv)"
  by (simp add: verified_try_def ok_unbound split: sum.splits)

lemma verified_block_id: "verified_block E i s req pl sv = s"
  using verified_try_aborts [of E i s req pl sv]
  by (auto simp: verified_block_def split: sum.splits)

lemma verified_try_reference_error:
  "pl \<noteq> JUndefined \<Longrightarrow> verified_try E i s req pl sv = Inl (ReferenceError ''ok'')"
  by (simp add: verified_try_def verified_prev_def json_stringify_def Let_def ok_unbound)

lemma prechecks_payload:
  assumes "verify_prechecks E i s req = Inr (pl, sv)"
  shows "pl \<noteq> JUndefined" "pl \<noteq> JNull" "sv = signature_valid E req pl"
  using assms
  by (auto simp: verify_prechecks_def Let_def verify_decompress_def must_prop_def
      split: if_splits sum.splits option.splits jsval.splits)

lemma verify_frame:
  "snd (verify E i s req) = s\<lparr>usedNonces := usedNonces (snd (verify E i s req)),
                               hcsEvents := hcsEvents (snd (verify E i s req))\<rparr>"
  by (auto simp: verify_def verified_block_id logHCSEvent_def Let_def verify_nonce_def
      split: sum.splits prod.splits if_splits)







lemmas verify_eval =
  verify_prechecks_def lookup_payload_def verify_decompress_def is_compressed_def
  verify_stored_counts_def verify_version_def verify_expiry_def verify_payload_counts_def
  signature_valid_def payload_signature_def normalized_def trim_def is_ws_def
  topic_key_def by_key_def entry_payload_prop_def record_prop_def opt_prop_def get_prop_def
  nullish_def js_or_def Let_def

lemma sample_verify_pre:
  "verify_prechecks sample_env sample_io sample_state sample_verify_req =
     Inr (sample_qr_payload, False)"
  by (simp add: verify_eval sample_verify_req_def sample_qr_payload_def sample_env_def
      sample_state_def empty_state_def)



text \<open>
  C5. The 'verified' block of the verify handler computes \<^verbatim>\<open>signatureOk\<close> from the
  identifier \<^verbatim>\<open>ok\<close>, which nothing in scope binds. In every run of the handler that reaches
  the block (the checks before it pass and the nonce guard lets the request through),
  reading \<^verbatim>\<open>ok\<close> raises a ReferenceError, the block's \<^verbatim>\<open>catch\<close> is taken with the state as it
  was, and the handler ends with no message queued, no call to the consensus service and
  the last event hash and type of every channel unchanged.
\<close>

theorem verified_block_aborts:
  assumes pre: "verify_prechecks E i s req = Inr (pl, sv)"
    and nonce: "verify_nonce s pl = Inr s1"
  shows "verified_try E i s1 req pl sv = Inl (ReferenceError ''ok'') \<and>
         verified_block E i s1 req pl sv = s1 \<and>
         messageQueue (snd (verify E i s req)) = messageQueue s \<and>
         hcsCalls (snd (verify E i s req)) = hcsCalls s \<and>
         lastEventHashPerTopic (snd (verify E i s req)) = lastEventHashPerTopic s \<and>
         lastEventTypePerTopic (snd (verify E i s req)) = lastEventTypePerTopic s"
proof -
  have "pl \<noteq> JUndefined" by (rule prechecks_payload(1) [OF pre])
  then have "verified_try E i s1 req pl sv = Inl (ReferenceError ''ok'')"
    by (rule verified_try_reference_error)
  moreover have "messageQueue (snd (verify E i s req)) = messageQueue s"
    "hcsCalls (snd (verify E i s req)) = hcsCalls s"
    "lastEventHashPerTopic (snd (verify E i s req)) = lastEventHashPerTopic s"
    "lastEventTypePerTopic (snd (verify E i s req)) = lastEventTypePerTopic s"
    by (subst verify_frame, simp)+
  ultimately show ?thesis by (simp add: verified_block_id)
qed

theorem verified_block_aborts_witness:
  "verify_prechecks sample_env sample_io sample_state sample_verify_req =
     Inr (sample_qr_payload, False) \<and>
   verify_nonce sample_state sample_qr_payload = Inr sample_state \<and>
   verified_try sample_env sample_io sample_state sample_verify_req sample_qr_payload False =
     Inl (ReferenceError ''ok'') \<and>
   messageQueue (snd (verify sample_env sample_io sample_state sample_verify_req)) = [] \<and>
   hcsCalls (snd (verify sample_env sample_io sample_state sample_verify_req)) = [] \<and>
   lastEventTypePerTopic (snd (verify sample_env sample_io sample_state sample_verify_req))
     sample_topic = Some ''issued''"
proof -
  have nonce: "verify_nonce sample_state sample_qr_payload = Inr sample_state"
    by (simp add: verify_nonce_def sample_qr_payload_def opt_prop_def get_prop_def)
  show ?thesis
    using verified_block_aborts [OF sample_verify_pre nonce] sample_verify_pre nonce
    by (simp add: sample_state_def empty_state_def)
qed





subsection \<open>The content hash\<close>

lemma obj_set_keys: "fst ` set (obj_set kvs k v) = insert k (fst ` set kvs)"
  by (induction kvs k v rule: obj_set.induct) auto

lemma obj_remove_id: "\<forall>k \<in> set ks. k \<notin> fst ` set kvs \<Longrightarrow> obj_remove ks kvs = kvs"
  by (induction kvs) (auto simp: obj_remove_def)

lemma obj_remove_obj_set_in:
  "k \<in> set ks \<Longrightarrow> obj_remove ks (obj_set kvs k v) = obj_remove ks kvs"
  by (induction kvs k v rule: obj_set.induct) (auto simp: obj_remove_def)

text \<open>The builder shared by the dispense, payment and verify handlers hashes the event
  with \<open>keyId\<close> and \<open>nonce\<close> in it, so its events keep the invariant.\<close>

lemma sign_event_content_hash:
  assumes ev: "sign_event E i base n = Inr ev"
    and fresh: "''contentHash'' \<notin> fst ` set base" "''signature'' \<notin> fst ` set base"
  shows "content_hash_ok E ev"
proof -
  from ev obtain pk sg where pk: "ensureKeyPair E n = Inr pk"
    and ev': "ev = obj_set (with_content_hash E (to_hash E i base pk)) ''signature'' (JStr (''hex:'' @ sg))"
    by (auto simp: sign_event_def Let_def split: sum.splits)
  let ?th = "to_hash E i base pk"
  have keys: "''contentHash'' \<notin> fst ` set ?th" "''signature'' \<notin> fst ` set ?th"
    using fresh by (simp_all add: to_hash_def obj_set_keys)
  have rm: "obj_remove [''signature'', ''contentHash''] ev = ?th"
    using keys
    by (simp add: ev' with_content_hash_def obj_remove_obj_set_in obj_remove_id)
  have "get_prop ev ''contentHash'' = JStr (event_hash E ?th)"
    by (simp add: ev' with_content_hash_def)
  then show ?thesis by (simp add: content_hash_ok_def rm)
qed

lemma dispense_base_keys:
  "''contentHash'' \<notin> fst ` set (dispense_base E i s req)"
  "''signature'' \<notin> fst ` set (dispense_base E i s req)"
  by (simp_all add: dispense_base_def)

lemma paid_base_keys:
  "''contentHash'' \<notin> fst ` set (paid_base E i s topic n preq)"
  "''signature'' \<notin> fst ` set (paid_base E i s topic n preq)"
  by (simp_all add: paid_base_def)

lemma dispense_event_content_hash:
  "dispense_event E i s req = Inr ev \<Longrightarrow> content_hash_ok E ev"
  unfolding dispense_event_def
  by (rule sign_event_content_hash [OF _ dispense_base_keys])

lemma paid_event_content_hash:
  "paid_event E i s topic n preq = Inr ev \<Longrightarrow> content_hash_ok E ev"
  unfolding paid_event_def
  by (rule sign_event_content_hash [OF _ paid_base_keys])

text \<open>The issue handler hashes before it attaches \<open>keyId\<close>: the content hash of an issued
  event is the hash of the event without \<open>signature\<close>, \<open>contentHash\<close> and \<open>keyId\<close>.\<close>

lemma issue_event_hash:
  assumes "issue_event E i x = Inr ev"
  shows "get_prop ev ''contentHash'' =
         JStr (event_hash E (obj_remove [''signature'', ''contentHash'', ''keyId''] ev))"
proof -
  let ?th = "issue_to_hash i x"
  have keys: "''contentHash'' \<notin> fst ` set ?th" "''signature'' \<notin> fst ` set ?th"
    "''keyId'' \<notin> fst ` set ?th"
    by (simp_all add: issue_to_hash_def obj_set_keys issue_full_payload_def)
  have rm: "obj_remove [''signature'', ''contentHash'', ''keyId''] ev = ?th"
    using assms keys
    by (auto simp: issue_event_def Let_def with_content_hash_def obj_remove_obj_set_in
        obj_remove_id split: option.splits if_splits sum.splits)
  have "get_prop ev ''contentHash'' = JStr (event_hash E ?th)"
    using assms
    by (auto simp: issue_event_def Let_def with_content_hash_def
        split: option.splits if_splits sum.splits)
  then show ?thesis by (simp add: rm)
qed

text \<open>
  C7 holds for the 'dispensed', 'paid' and 'verified' builders and fails for the issued
  event of a doctor who gives a national id. The issue handler computes \<open>contentHash\<close>
  over the payload with the nonce, stores it, and only then sets \<open>keyId\<close> and signs. The
  event it submits therefore has a \<open>keyId\<close> that the hash does not cover, and hashing the
  event without \<open>signature\<close> and \<open>contentHash\<close> does not give back \<open>contentHash\<close>. Evaluated on
  the sample prescription issued by doctor \<open>DR100\<close>, with the stand-in hash that keeps
  different texts apart:
\<close>

theorem issued_content_hash_misses_key_id:
  "\<not> isl (issue_event sample_env sample_io sample_issue_input) \<and>
   get_prop (projr (issue_event sample_env sample_io sample_issue_input)) ''keyId'' = JStr ''fp:04DR100'' \<and>
   \<not> content_hash_ok sample_env (projr (issue_event sample_env sample_io sample_issue_input))"
  by (simp add: issue_event_def Let_def sample_issue_input_def sample_env_def
      with_content_hash_def issue_to_hash_def issue_full_payload_def content_hash_ok_def
      event_hash_def sha256_tag_def obj_remove_def key_id_def get_prop_def sample_io_def
      intercalate_def json_quote_def json_escape_char_def show_int_def show_nat.simps
      digit_char_def opt_prop_def js_or_def)

subsection \<open>Compression and decompression\<close>


















text \<open>What the sample dispensed event looks like in compact form: the event type under
  \<open>e\<close>, the count still a number under \<open>dc\<close>, a short value kept and a long one replaced by
  the first token.\<close>

lemma sample_compressed_fields:
  "opt_prop (fst (compress_payload sample_codec sample_dispensed_event [])) ''e'' = JStr ''dispensed''"
  "opt_prop (fst (compress_payload sample_codec sample_dispensed_event [])) ''dc'' = JNum 1"
  "opt_prop (fst (compress_payload sample_codec sample_dispensed_event [])) ''s'' = JStr ''hex:5167PH778''"
  "opt_prop (fst (compress_payload sample_codec sample_dispensed_event [])) ''alg'' = JStr ''#0''"
  by (simp_all add: compress_payload_def Let_def populate_def add_value_def token_for_def
      sample_dispensed_event_def sample_codec_def short_key_def field_codes_def opt_prop_def
      get_prop_def show_nat.simps digit_char_def)



end
